theory Spec2Isabelle
  imports Main "HOL-Library.Word"
begin

unbundle bit_operations_syntax

section \<open>JavaScript values used by the translator\<close>

text \<open>
  The translator (src/src/context.js) builds the generated program as text. Strings are
  \<open>string\<close>; a variable that may still hold \<open>undefined\<close> is a \<open>string option\<close>.
  Numbers are double-precision floats; the integer-valued ones are \<open>int\<close>. A safe
  integer (below \<open>2^53\<close> in magnitude) is converted to text with all its decimal
  digits (\<open>decimal\<close>). The text of any other number comes out of the floating-point
  formatting (rounded digits below \<open>10^21\<close>, exponent notation such as \<open>1e+21\<close> from
  there on), which is not modelled: \<open>toString_num\<close> takes it from its parameter
  \<open>expo\<close>.
\<close>

definition digit :: "nat \<Rightarrow> char" where
  "digit n = ''0123456789'' ! (n mod 10)"

fun digits :: "nat \<Rightarrow> string" where
  "digits n = (if n < 10 then [digit n] else digits (n div 10) @ [digit n])"

declare digits.simps [simp del]

definition decimal :: "int \<Rightarrow> string" where
  "decimal i = (if i < 0 then CHR ''-'' # digits (nat (- i)) else digits (nat i))"

definition isSafeInteger :: "int \<Rightarrow> bool" where
  "isSafeInteger i = (- (2 ^ 53) < i \<and> i < 2 ^ 53)"

definition toString_num :: "(int \<Rightarrow> string) \<Rightarrow> int \<Rightarrow> string" where
  "toString_num expo i = (if isSafeInteger i then decimal i else expo i)"

text \<open>
  Reading a number back from its text, to say what a text denotes: an optional minus
  sign, then decimal digits only.
\<close>

definition digitsValue :: "string \<Rightarrow> nat option" where
  "digitsValue s =
     (if s \<noteq> [] \<and> (\<forall>c\<in>set s. c \<in> set ''0123456789'')
      then Some (foldl (\<lambda>a c. 10 * a + (of_char c - 48)) 0 s)
      else None)"

definition intOfText :: "string \<Rightarrow> int option" where
  "intOfText s =
     (if s \<noteq> [] \<and> hd s = CHR ''-'' then map_option (\<lambda>n. - int n) (digitsValue (tl s))
      else map_option int (digitsValue s))"

text \<open>String concatenation with a variable that may be \<open>undefined\<close>.\<close>

definition js_str :: "string option \<Rightarrow> string" where
  "js_str s = (case s of None \<Rightarrow> ''undefined'' | Some t \<Rightarrow> t)"

text \<open>Truthiness of a string-or-undefined value: \<open>undefined\<close> and \<open>""\<close> are falsy.\<close>

definition truthy :: "string option \<Rightarrow> bool" where
  "truthy s = (case s of None \<Rightarrow> False | Some t \<Rightarrow> t \<noteq> [])"

section \<open>The type model\<close>

text \<open>
  Modelled from the spec: js/Types.js, js/Scope.js and js/Procedure.js are required by
  context.js but are not part of the sources at hand, so the type variants follow the
  data model of the specification: basic kinds, fixed strings, static and open arrays,
  records with an optional base and their own fields, pointers and procedures.

  A record type is an object compared by identity (\<open>t != fromType\<close>); \<open>rec_id\<close> is that
  identity. A record carries its base chain, which the translator keeps acyclic
  (\<open>RecordDecl.setBaseType\<close> refuses a recursive base), and its own fields in the order
  of their declaration. A pointer names the type identifier of its base, resolved
  through the environment \<open>tenv\<close>, so that records linked through pointers (lists,
  trees) are representable.
\<close>

datatype basic = T_integer | T_uint8 | T_real | T_bool | T_ch | T_set

datatype scope = Scope_Module string | Scope_Procedure nat

datatype proc_kind = Std | Defined

datatype otype =
    Basic basic
  | NilType
  | String string
  | StaticArray string otype int
  | OpenArray otype
  | Record rec_t
  | Pointer string nat
  | Procedure proc_kind string
  | TypeId_t otype
and rec_t =
    RecordT (rec_id: nat) (rec_name: string) (rec_cons: string)
            (rec_base: "rec_t option") (rec_ownFields: "(string \<times> otype) list")
            (rec_scope: scope)

type_synonym tenv = "nat \<Rightarrow> rec_t"

definition isInt :: "otype \<Rightarrow> bool" where
  "isInt t = (t = Basic T_integer \<or> t = Basic T_uint8)"

fun isString :: "otype \<Rightarrow> bool" where
  "isString (String s) = True"
| "isString (StaticArray i e n) = (e = Basic T_ch)"
| "isString (OpenArray e) = (e = Basic T_ch)"
| "isString t = False"

fun isArray :: "otype \<Rightarrow> bool" where
  "isArray (StaticArray i e n) = True"
| "isArray (OpenArray e) = True"
| "isArray t = False"

fun isPointer :: "otype \<Rightarrow> bool" where
  "isPointer (Pointer n h) = True"
| "isPointer t = False"

fun isProcedure :: "otype \<Rightarrow> bool" where
  "isProcedure (Procedure k n) = True"
| "isProcedure t = False"

definition recordBase :: "rec_t \<Rightarrow> rec_t option" where
  "recordBase r = rec_base r"

definition recordOwnFields :: "rec_t \<Rightarrow> (string \<times> otype) list" where
  "recordOwnFields r = rec_ownFields r"

definition typeName :: "rec_t \<Rightarrow> string" where
  "typeName r = rec_name r"

definition recordScope :: "rec_t \<Rightarrow> scope" where
  "recordScope r = rec_scope r"

text \<open>
  Symbol infos (spec, data model): a constant, a variable with its read-only and
  by-reference flags, a procedure identifier, a type identifier. Compile-time constants
  of the modelled expressions are integral (\<open>Code.makeIntConst\<close>, \<open>Code.makeSetConst\<close>);
  real and string constants are not inspected by any modelled operation.
\<close>

datatype const = IntConst int | SetConst int

fun cvalue :: "const \<Rightarrow> int" where
  "cvalue (IntConst v) = v"
| "cvalue (SetConst v) = v"

datatype info =
    Const otype "const option"
  | Variable otype bool bool
  | ProcedureId otype
  | TypeId otype

fun isReference :: "info \<Rightarrow> bool" where
  "isReference (Variable t ro r) = r"
| "isReference i = False"

fun isReadOnly :: "info \<Rightarrow> bool" where
  "isReadOnly (Variable t ro r) = ro"
| "isReadOnly i = False"

fun isConst :: "info \<Rightarrow> bool" where
  "isConst (Const t v) = True"
| "isConst i = False"

section \<open>Code emitter and expressions\<close>

text \<open>
  The emitter interface (js/CodeGenerator.js, not at hand) is \<open>write\<close>, \<open>openScope\<close>
  and \<open>closeScope\<close>; the model records the calls in order rather than the text layout.
  The null generator drops everything; a simple generator only concatenates.
\<close>

datatype gen_event = Write string | OpenScope | CloseScope string

type_synonym gen = "gen_event list"

record designator =
  d_code :: string
  d_lval :: string
  d_type :: otype
  d_info :: info
  d_scope :: "scope option"

record expression =
  e_code :: string
  e_type :: otype
  e_designator :: "designator option"
  e_constValue :: "const option"

definition makeExpression ::
    "string \<Rightarrow> otype \<Rightarrow> designator option \<Rightarrow> const option \<Rightarrow> expression" where
  "makeExpression c t d v =
     \<lparr>e_code = c, e_type = t, e_designator = d, e_constValue = v\<rparr>"

section \<open>Errors\<close>

datatype error =
    NotAVariable string
  | UndeclaredIdentifier string
  | ForControlVariableMustBeInteger string otype
  | ForInitIntegerExpected "string option" otype
  | ForToIntegerExpected otype
  | ForByIntegerExpected otype
  | ForByConstantExpected
  | JS_TypeError
  | TypeNameExpected
  | TypeMismatch otype otype
  | InvalidCast_PointerOrRecordExpected string otype
  | InvalidCast_ValueVariable string
  | InvalidCast_RecordExpected string otype
  | InvalidCast_PointerExpected string otype
  | InvalidCast_NotAnExtension string rec_t rec_t
  | IndexIntegerExpected otype
  | ArrayOrStringExpected otype
  | CannotIndexEmptyString
  | IndexOutOfBounds int int
  | IndexRejected int
  | PointerExpected otype
  | NonExportedRecordDereference
  | OperatorTypeMismatch string string "otype option"
  | SetElementIntegerExpected otype
  | NoDeclarationFound "string list"
  | StdProcCannotBeReferenced otype
  | LocalProcCannotBeReferenced string

section \<open>The counted loop (exports.For)\<close>

record for_state =
  for_var :: "string option"
  for_initExprParsed :: bool
  for_toExpr :: string
  for_toParsed :: bool
  for_by_parsed :: bool
  for_by :: "int option"
  for_out :: gen

definition For_init :: "for_state" where
  "For_init = \<lparr>for_var = None, for_initExprParsed = False, for_toExpr = [],
     for_toParsed = False, for_by_parsed = False, for_by = None, for_out = []\<rparr>"

text \<open>\<open>For.handleIdent\<close>; \<open>found\<close> is what \<open>getSymbol\<close> finds for the identifier.\<close>

definition For_handleIdent :: "for_state \<Rightarrow> string \<Rightarrow> info option \<Rightarrow> error + for_state" where
  "For_handleIdent st ident found =
     (case found of
        None \<Rightarrow> Inl (UndeclaredIdentifier ident)
      | Some (Variable t ro r) \<Rightarrow>
          if t \<noteq> Basic T_integer then Inl (ForControlVariableMustBeInteger ident t)
          else Inr (st\<lparr>for_var := Some ident,
                       for_out := for_out st @ [Write (''for ('' @ ident @ '' = '')]\<rparr>)
      | Some i \<Rightarrow> Inl (NotAVariable ident))"

text \<open>
  \<open>For.codeGenerator\<close> chooses where nested productions write: the limit expression
  goes to \<open>__toExpr\<close>, the BY expression to the null generator, everything else to the
  parent's generator. \<open>For_write\<close> is a \<open>write\<close> on the generator it selects.
\<close>

datatype for_target = ToExpr | NullGen | ParentGen

definition For_codeGenerator :: "for_state \<Rightarrow> for_target" where
  "For_codeGenerator st =
     (if for_initExprParsed st \<and> \<not> for_toParsed st then ToExpr
      else if for_toParsed st \<and> \<not> for_by_parsed st then NullGen
      else ParentGen)"

definition For_write :: "for_state \<Rightarrow> string \<Rightarrow> for_state" where
  "For_write st s =
     (case For_codeGenerator st of
        ToExpr \<Rightarrow> st\<lparr>for_toExpr := for_toExpr st @ s\<rparr>
      | NullGen \<Rightarrow> st
      | ParentGen \<Rightarrow> st\<lparr>for_out := for_out st @ [Write s]\<rparr>)"

definition For_handleInitExpression :: "for_state \<Rightarrow> otype \<Rightarrow> error + for_state" where
  "For_handleInitExpression st t =
     (if t \<noteq> Basic T_integer then Inl (ForInitIntegerExpected (for_var st) t)
      else Inr (st\<lparr>for_initExprParsed := True\<rparr>))"

definition For_handleExpression :: "for_state \<Rightarrow> expression \<Rightarrow> error + for_state" where
  "For_handleExpression st e =
     (let t = e_type e in
      if \<not> for_initExprParsed st then For_handleInitExpression st t
      else if \<not> for_toParsed st then
        (if t \<noteq> Basic T_integer then Inl (ForToIntegerExpected t)
         else Inr (st\<lparr>for_toParsed := True\<rparr>))
      else
        (if t \<noteq> Basic T_integer then Inl (ForByIntegerExpected t)
         else case e_constValue e of
                None \<Rightarrow> Inl ForByConstantExpected
              | Some v \<Rightarrow> Inr (st\<lparr>for_by := Some (cvalue v)\<rparr>)))"

text \<open>
  \<open>Expression.endParse\<close> inside a FOR: the expression's code is written to the
  generator the loop selects, then the loop handles the expression.
\<close>

definition For_expression :: "for_state \<Rightarrow> expression \<Rightarrow> error + for_state" where
  "For_expression st e = For_handleExpression (For_write st (e_code e)) e"

definition For_relation :: "int option \<Rightarrow> string" where
  "For_relation b = (case b of None \<Rightarrow> '' <= '' | Some n \<Rightarrow> if n < 0 then '' >= '' else '' <= '')"

definition For_step :: "(int \<Rightarrow> string) \<Rightarrow> string option \<Rightarrow> int option \<Rightarrow> string" where
  "For_step expo v b =
     (case b of
        None \<Rightarrow> ''++'' @ js_str v
      | Some n \<Rightarrow> js_str v @ (if n < 0 then '' -= '' @ toString_num expo (- n)
                              else '' += '' @ toString_num expo n))"

definition For_handleBegin :: "(int \<Rightarrow> string) \<Rightarrow> for_state \<Rightarrow> for_state" where
  "For_handleBegin expo st =
     (let st1 = st\<lparr>for_by_parsed := True\<rparr>;
          relation = For_relation (for_by st1);
          step = For_step expo (for_var st1) (for_by st1);
          s = ''; '' @ js_str (for_var st1) @ relation @ for_toExpr st1 @ ''; '' @ step @ '')'';
          st2 = For_write st1 s
      in st2\<lparr>for_out := for_out st2 @ [OpenScope]\<rparr>)"

definition For_endParse :: "for_state \<Rightarrow> for_state" where
  "For_endParse st = st\<lparr>for_out := for_out st @ [CloseScope []]\<rparr>"

text \<open>
  A whole loop header, as the parser drives it: control variable, initial value, limit,
  an optional BY expression, then BEGIN.
\<close>

definition For_header ::
    "(int \<Rightarrow> string) \<Rightarrow> string \<Rightarrow> info option \<Rightarrow> expression \<Rightarrow> expression
       \<Rightarrow> expression option \<Rightarrow> error + for_state" where
  "For_header expo ident found ini lim step =
     (case For_handleIdent For_init ident found of
        Inl err \<Rightarrow> Inl err
      | Inr s1 \<Rightarrow>
        (case For_expression s1 ini of
           Inl err \<Rightarrow> Inl err
         | Inr s2 \<Rightarrow>
           (case For_expression s2 lim of
              Inl err \<Rightarrow> Inl err
            | Inr s3 \<Rightarrow>
              (case step of
                 None \<Rightarrow> Inr (For_handleBegin expo s3)
               | Some b \<Rightarrow>
                 (case For_expression s3 b of
                    Inl err \<Rightarrow> Inl err
                  | Inr s4 \<Rightarrow> Inr (For_handleBegin expo s4))))))"

section \<open>Guarded casts and type tests (checkTypeCast)\<close>

text \<open>
  The loop of \<open>checkTypeCast\<close>: \<open>while (t && t != fromType) t = Type.recordBase(t)\<close>.
  The result is the final \<open>t\<close>: \<open>None\<close> when the chain ended, the matching record
  otherwise. The second equation reads the base of \<open>t\<close> (its fourth component) for the
  next round.
\<close>

fun baseChainFind :: "rec_t option \<Rightarrow> rec_t \<Rightarrow> rec_t option" where
  "baseChainFind None fromType = None"
| "baseChainFind (Some (RecordT i n c b fs sc)) fromType =
     (if RecordT i n c b fs sc = fromType then Some (RecordT i n c b fs sc)
      else baseChainFind b fromType)"

definition pointerBase :: "tenv \<Rightarrow> nat \<Rightarrow> rec_t" where
  "pointerBase env h = env h"

definition checkExtension :: "string \<Rightarrow> rec_t \<Rightarrow> rec_t \<Rightarrow> error + unit" where
  "checkExtension msg toType fromType =
     (case baseChainFind (recordBase toType) fromType of
        None \<Rightarrow> Inl (InvalidCast_NotAnExtension msg toType fromType)
      | Some t \<Rightarrow> Inr ())"

text \<open>
  \<open>checkTypeCast(fromInfo, fromType, toType, msg)\<close>. \<open>fromInfo\<close> is \<open>undefined\<close>
  (\<open>None\<close>) when a type test is applied to an expression without a designator; reading
  \<open>isReference\<close> from it is then a run-time TypeError of the translator.
\<close>

fun checkTypeCast :: "tenv \<Rightarrow> info option \<Rightarrow> otype \<Rightarrow> otype \<Rightarrow> string \<Rightarrow> error + unit" where
  "checkTypeCast env fromInfo (Record fr) toType msg =
     (case fromInfo of
        None \<Rightarrow> Inl JS_TypeError
      | Some i \<Rightarrow>
          if \<not> isReference i then Inl (InvalidCast_ValueVariable msg)
          else (case toType of
                  Record tr \<Rightarrow> checkExtension msg tr fr
                | t \<Rightarrow> Inl (InvalidCast_RecordExpected msg toType)))"
| "checkTypeCast env fromInfo (Pointer n h) toType msg =
     (case toType of
        Pointer n' h' \<Rightarrow> checkExtension msg (pointerBase env h') (pointerBase env h)
      | t \<Rightarrow> Inl (InvalidCast_PointerExpected msg toType))"
| "checkTypeCast env fromInfo fromType toType msg =
     Inl (InvalidCast_PointerOrRecordExpected msg fromType)"

text \<open>
  \<open>castCode\<close>: the constructor reference of the target record, qualified by its scope.
  \<open>qualify\<close> is the context's \<open>qualifyScope\<close>.
\<close>

fun castCode :: "tenv \<Rightarrow> (scope \<Rightarrow> string) \<Rightarrow> otype \<Rightarrow> error + string" where
  "castCode env qualify (Pointer n h) =
     Inr (qualify (recordScope (pointerBase env h)) @ rec_cons (pointerBase env h))"
| "castCode env qualify (Record r) = Inr (qualify (recordScope r) @ rec_cons r)"
| "castCode env qualify t = Inl JS_TypeError"

text \<open>
  The extension relation in the words of the specification: the target is an extension
  of the source when the source is the target's base, or the base of one of its bases.
\<close>

inductive extends :: "rec_t \<Rightarrow> rec_t \<Rightarrow> bool" where
  direct: "rec_base t = Some b \<Longrightarrow> extends t b"
| step: "rec_base t = Some b \<Longrightarrow> extends b s \<Longrightarrow> extends t s"

text \<open>
  When a cast is allowed by the specification: the source is a by-reference record
  variable and the target a record, or both are pointers, and in either case the target
  record extends the source record.
\<close>

definition castAllowed :: "tenv \<Rightarrow> info option \<Rightarrow> otype \<Rightarrow> otype \<Rightarrow> bool" where
  "castAllowed env fromInfo fromType toType =
     (\<exists>fr tr. extends tr fr \<and>
        ((fromType = Record fr \<and> toType = Record tr \<and> (\<exists>i. fromInfo = Some i \<and> isReference i))
         \<or> (\<exists>n h n' h'. fromType = Pointer n h \<and> toType = Pointer n' h'
               \<and> fr = env h \<and> tr = env h')))"

text \<open>The type test: the operation that \<open>RelationOps.is\<close> returns, applied to \<open>left\<close>.\<close>

definition RelationOps_is ::
    "tenv \<Rightarrow> (scope \<Rightarrow> string) \<Rightarrow> otype \<Rightarrow> expression \<Rightarrow> error + (expression \<times> string)" where
  "RelationOps_is env qualify t left =
     (case checkTypeCast env (map_option d_info (e_designator left)) (e_type left) t ''type test'' of
        Inl err \<Rightarrow> Inl err
      | Inr u \<Rightarrow> (case castCode env qualify t of
                    Inl err \<Rightarrow> Inl err
                  | Inr c \<Rightarrow> Inr (left, c)))"

section \<open>Designators (exports.Designator)\<close>

text \<open>
  The state of a designator context after \<open>handleQIdent\<close> has resolved the leading
  identifier: current type, symbol info, owning scope, access code, lvalue code, the
  pending index expression and the codes of the last indexed or dereferenced object.
\<close>

record designator_state =
  ds_currentType :: otype
  ds_info :: info
  ds_scope :: "scope option"
  ds_code :: string
  ds_lval :: "string option"
  ds_indexExpression :: "expression option"
  ds_derefCode :: "string option"
  ds_propCode :: "string option"

record index_seq =
  ix_length :: "int option"
  ix_type :: otype
  ix_info :: info
  ix_code :: string
  ix_lval :: "string option"
  ix_asProperty :: string

definition Designator_handleExpression :: "designator_state \<Rightarrow> expression \<Rightarrow> designator_state" where
  "Designator_handleExpression st e = st\<lparr>ds_indexExpression := Some e\<rparr>"

definition checkIndexType :: "otype \<Rightarrow> error + unit" where
  "checkIndexType t = (if \<not> isInt t then Inl (IndexIntegerExpected t) else Inr ())"

text \<open>
  \<open>Designator._stringIndexCode\<close>; \<open>deref\<close> is \<open>Code.derefExpression(e).code()\<close>
  (js/Code.js, not at hand).
\<close>

definition stringIndexCode :: "(expression \<Rightarrow> string) \<Rightarrow> designator_state \<Rightarrow> expression \<Rightarrow> string" where
  "stringIndexCode deref st e = js_str (ds_derefCode st) @ ''.charCodeAt('' @ deref e @ '')''"

fun indexLength :: "otype \<Rightarrow> int option" where
  "indexLength (StaticArray i e n) = Some n"
| "indexLength (OpenArray e) = None"
| "indexLength (String s) = Some (int (length s))"
| "indexLength t = None"

fun indexElementsType :: "otype \<Rightarrow> otype" where
  "indexElementsType (StaticArray i e n) = e"
| "indexElementsType (OpenArray e) = e"
| "indexElementsType t = Basic T_ch"

fun isStringLiteral :: "otype \<Rightarrow> bool" where
  "isStringLiteral (String s) = True"
| "isStringLiteral t = False"

fun isStaticArray :: "otype \<Rightarrow> bool" where
  "isStaticArray (StaticArray i e n) = True"
| "isStaticArray t = False"

definition indexSequence ::
    "(expression \<Rightarrow> string) \<Rightarrow> designator_state \<Rightarrow> expression \<Rightarrow> string \<Rightarrow> error + index_seq" where
  "indexSequence deref st e indexCode =
     (let t = ds_currentType st; info = ds_info st in
      if \<not> isArray t \<and> \<not> isStringLiteral t then Inl (ArrayOrStringExpected t)
      else
        let len = indexLength t in
        if \<not> isArray t \<and> (len = None \<or> len = Some 0) then Inl CannotIndexEmptyString
        else
          let indexType = indexElementsType t;
              code = js_str (ds_derefCode st) @ ''['' @ indexCode @ '']''
          in Inr \<lparr>ix_length = len,
                  ix_type = indexType,
                  ix_info = Variable indexType (isConst info \<or> isReadOnly info) False,
                  ix_code = (if indexType = Basic T_ch then stringIndexCode deref st e else code),
                  ix_lval = (if indexType = Basic T_ch then Some code else None),
                  ix_asProperty = indexCode\<rparr>)"

text \<open>
  \<open>Designator._checkIndexValue\<close>; \<open>checkIndex\<close> is \<open>Code.checkIndex\<close> (js/Code.js,
  not at hand), which may refuse a constant index with an error of its own.
\<close>

definition checkIndexValue ::
    "(int \<Rightarrow> error option) \<Rightarrow> designator_state \<Rightarrow> index_seq \<Rightarrow> const option \<Rightarrow> error + unit" where
  "checkIndexValue checkIndex st index pValue =
     (case pValue of
        None \<Rightarrow> Inr ()
      | Some pv \<Rightarrow>
          let v = cvalue pv in
          (case checkIndex v of
             Some err \<Rightarrow> Inl err
           | None \<Rightarrow>
               (case ix_length index of
                  None \<Rightarrow> Inr ()
                | Some len \<Rightarrow>
                    if (isStaticArray (ds_currentType st) \<or> isStringLiteral (ds_currentType st))
                       \<and> v \<ge> len
                    then Inl (IndexOutOfBounds (len - 1) v)
                    else Inr ())))"

definition handleIndexExpression ::
    "(int \<Rightarrow> error option) \<Rightarrow> (expression \<Rightarrow> string) \<Rightarrow> designator_state \<Rightarrow> error + index_seq" where
  "handleIndexExpression checkIndex deref st =
     (case ds_indexExpression st of
        None \<Rightarrow> Inl JS_TypeError
      | Some e \<Rightarrow>
          (case checkIndexType (e_type e) of
             Inl err \<Rightarrow> Inl err
           | Inr u \<Rightarrow>
               (case indexSequence deref st e (deref e) of
                  Inl err \<Rightarrow> Inl err
                | Inr index \<Rightarrow>
                    (case checkIndexValue checkIndex st index (e_constValue e) of
                       Inl err \<Rightarrow> Inl err
                     | Inr u \<Rightarrow> Inr index))))"

definition advance ::
    "designator_state \<Rightarrow> otype \<Rightarrow> info \<Rightarrow> string \<Rightarrow> string option \<Rightarrow> bool \<Rightarrow> designator_state" where
  "advance st t i c lval replace =
     st\<lparr>ds_currentType := t, ds_info := i,
        ds_code := (if replace then [] else ds_code st) @ c, ds_lval := lval\<rparr>"

definition handleDeref :: "tenv \<Rightarrow> (rec_t \<Rightarrow> bool) \<Rightarrow> designator_state \<Rightarrow> error + designator_state" where
  "handleDeref env nonExported st =
     (case ds_currentType st of
        Pointer n h \<Rightarrow>
          if nonExported (pointerBase env h) then Inl NonExportedRecordDereference
          else Inr (st\<lparr>ds_currentType := Record (pointerBase env h)\<rparr>)
      | t \<Rightarrow> Inl (PointerExpected t))"

definition makeDerefVar :: "designator_state \<Rightarrow> info" where
  "makeDerefVar st = Variable (ds_currentType st) False True"

text \<open>
  \<open>Designator.handleLiteral\<close>: a closing bracket or comma finishes an index step; an
  opening bracket or comma starts one, remembering the code of the indexed object;
  \<open>^\<close> dereferences.
\<close>

definition Designator_handleLiteral ::
    "tenv \<Rightarrow> (rec_t \<Rightarrow> bool) \<Rightarrow> (int \<Rightarrow> error option) \<Rightarrow> (expression \<Rightarrow> string)
       \<Rightarrow> designator_state \<Rightarrow> string \<Rightarrow> error + designator_state" where
  "Designator_handleLiteral env nonExported checkIndex deref st s =
     (case (if s = '']'' \<or> s = '',''
            then (case handleIndexExpression checkIndex deref st of
                    Inl err \<Rightarrow> Inl err
                  | Inr index \<Rightarrow>
                      Inr (advance (st\<lparr>ds_propCode := Some (ix_asProperty index)\<rparr>)
                             (ix_type index) (ix_info index) (ds_code st @ ix_code index)
                             (ix_lval index) False))
            else Inr st) of
        Inl err \<Rightarrow> Inl err
      | Inr st1 \<Rightarrow>
          if s = ''['' \<or> s = '','' then Inr (st1\<lparr>ds_derefCode := Some (ds_code st1), ds_code := []\<rparr>)
          else if s = ''^'' then
            (case handleDeref env nonExported st1 of
               Inl err \<Rightarrow> Inl err
             | Inr st2 \<Rightarrow> Inr (st2\<lparr>ds_info := makeDerefVar st2\<rparr>))
          else Inr st1)"

text \<open>
  \<open>Designator.handleTypeCast\<close>; \<open>typeGuard\<close> is the runtime library's guard call
  generator.
\<close>

definition Designator_handleTypeCast ::
    "tenv \<Rightarrow> (scope \<Rightarrow> string) \<Rightarrow> (string \<Rightarrow> string \<Rightarrow> string) \<Rightarrow> designator_state \<Rightarrow> otype
       \<Rightarrow> error + designator_state" where
  "Designator_handleTypeCast env qualify typeGuard st t =
     (case checkTypeCast env (Some (ds_info st)) (ds_currentType st) t ''type cast'' of
        Inl err \<Rightarrow> Inl err
      | Inr u \<Rightarrow>
          (case castCode env qualify t of
             Inl err \<Rightarrow> Inl err
           | Inr c \<Rightarrow> Inr (st\<lparr>ds_code := typeGuard (ds_code st) c, ds_currentType := t\<rparr>)))"

text \<open>
  \<open>Designator.__makeRefCode\<close>. \<open>scalar\<close> is \<open>Type.isScalar\<close> and \<open>makeRef\<close> the
  runtime library's reference builder (neither at hand). The last branch is the text of
  an object with a setter and a getter closed over the variable.
\<close>

definition makeRefCode ::
    "(otype \<Rightarrow> bool) \<Rightarrow> (string \<Rightarrow> string \<Rightarrow> string) \<Rightarrow> designator_state \<Rightarrow> string \<Rightarrow> string" where
  "makeRefCode scalar makeRef st code =
     (if \<not> scalar (ds_currentType st) \<or> isReference (ds_info st) then code
      else if truthy (ds_derefCode st)
           then makeRef (js_str (ds_derefCode st)) (js_str (ds_propCode st))
      else ''{set: function($v){'' @ code @ '' = $v;}, get: function(){return '' @ code @ '';}}'')"

text \<open>
  \<open>Designator.endParse\<close>: the designator handed to the parent, and its reference-code
  producer.
\<close>

definition Designator_endParse :: "designator_state \<Rightarrow> designator" where
  "Designator_endParse st =
     \<lparr>d_code = ds_code st,
      d_lval = (if truthy (ds_lval st) then js_str (ds_lval st) else ds_code st),
      d_type = ds_currentType st, d_info = ds_info st, d_scope = ds_scope st\<rparr>"

definition Designator_refCode ::
    "(otype \<Rightarrow> bool) \<Rightarrow> (string \<Rightarrow> string \<Rightarrow> string) \<Rightarrow> designator_state \<Rightarrow> string \<Rightarrow> string" where
  "Designator_refCode scalar makeRef st = (\<lambda>code. makeRefCode scalar makeRef st code)"

section \<open>Relational operators (RelationOps, relationOp)\<close>

text \<open>The code-generating operations of js/Operator.js that a relation can resolve to.\<close>

datatype operator =
    equalInt | equalStr | equalReal | equalSet
  | notEqualInt | notEqualStr | notEqualReal | notEqualSet
  | lessInt | lessStr | lessReal
  | greaterInt | greaterStr | greaterReal
  | eqLessInt | eqLessStr | eqLessReal | setInclL
  | eqGreaterInt | eqGreaterStr | eqGreaterReal | setInclR
  | is_op otype
  | setHasBit

definition useIntOrderOp :: "otype \<Rightarrow> bool" where
  "useIntOrderOp t = (isInt t \<or> t = Basic T_ch)"

definition useIntEqOp :: "otype \<Rightarrow> bool" where
  "useIntEqOp t =
     (isInt t \<or> t = Basic T_bool \<or> t = Basic T_ch \<or> isPointer t \<or> isProcedure t \<or> t = NilType)"

definition RelationOps_eq :: "otype \<Rightarrow> operator option" where
  "RelationOps_eq t =
     (if useIntEqOp t then Some equalInt
      else if isString t then Some equalStr
      else if t = Basic T_real then Some equalReal
      else if t = Basic T_set then Some equalSet
      else None)"

definition RelationOps_notEq :: "otype \<Rightarrow> operator option" where
  "RelationOps_notEq t =
     (if useIntEqOp t then Some notEqualInt
      else if isString t then Some notEqualStr
      else if t = Basic T_real then Some notEqualReal
      else if t = Basic T_set then Some notEqualSet
      else None)"

definition RelationOps_less :: "otype \<Rightarrow> operator option" where
  "RelationOps_less t =
     (if useIntOrderOp t then Some lessInt
      else if isString t then Some lessStr
      else if t = Basic T_real then Some lessReal
      else None)"

definition RelationOps_greater :: "otype \<Rightarrow> operator option" where
  "RelationOps_greater t =
     (if useIntOrderOp t then Some greaterInt
      else if isString t then Some greaterStr
      else if t = Basic T_real then Some greaterReal
      else None)"

definition RelationOps_lessEq :: "otype \<Rightarrow> operator option" where
  "RelationOps_lessEq t =
     (if useIntOrderOp t then Some eqLessInt
      else if isString t then Some eqLessStr
      else if t = Basic T_real then Some eqLessReal
      else if t = Basic T_set then Some setInclL
      else None)"

definition RelationOps_greaterEq :: "otype \<Rightarrow> operator option" where
  "RelationOps_greaterEq t =
     (if useIntOrderOp t then Some eqGreaterInt
      else if isString t then Some eqGreaterStr
      else if t = Basic T_real then Some eqGreaterReal
      else if t = Basic T_set then Some setInclR
      else None)"

definition eqExpect :: string where
  "eqExpect = ''numeric type or SET or BOOLEAN or CHAR or character array or POINTER or PROCEDURE''"

definition strongRelExpect :: string where
  "strongRelExpect = ''numeric type or CHAR or character array''"

definition relExpect :: string where
  "relExpect = ''numeric type or SET or CHAR or character array''"

text \<open>
  The collaborators of js/Cast.js and of the language's type rules are parameters:
  \<open>areTypesMatch\<close>, \<open>findPointerBaseType\<close> and \<open>implicitCast\<close>, which is true when
  the cast is refused, as the translator tests it.
\<close>

record cast_rules =
  areTypesMatch :: "otype \<Rightarrow> otype \<Rightarrow> bool"
  findPointerBaseType :: "otype \<Rightarrow> otype \<Rightarrow> otype option"
  implicitCast :: "otype \<Rightarrow> otype \<Rightarrow> bool"

definition checkTypeMatch :: "cast_rules \<Rightarrow> otype \<Rightarrow> otype \<Rightarrow> error + unit" where
  "checkTypeMatch cr from to =
     (if \<not> areTypesMatch cr from to then Inl (TypeMismatch from to) else Inr ())"

definition checkImplicitCast :: "cast_rules \<Rightarrow> otype \<Rightarrow> otype \<Rightarrow> error + unit" where
  "checkImplicitCast cr from to =
     (if implicitCast cr from to then Inl (TypeMismatch from to) else Inr ())"

definition unwrapType :: "otype \<Rightarrow> error + otype" where
  "unwrapType t = (case t of TypeId_t u \<Rightarrow> Inr u | u \<Rightarrow> Inl TypeNameExpected)"

definition coalescePointers :: "cast_rules \<Rightarrow> otype \<Rightarrow> otype \<Rightarrow> otype option" where
  "coalescePointers cr leftType rightType =
     (if isPointer leftType \<and> isPointer rightType
      then (case findPointerBaseType cr leftType rightType of
              Some t \<Rightarrow> Some t
            | None \<Rightarrow> findPointerBaseType cr rightType leftType)
      else None)"

definition coalesceType :: "cast_rules \<Rightarrow> otype \<Rightarrow> otype \<Rightarrow> error + otype" where
  "coalesceType cr leftType rightType =
     (case coalescePointers cr leftType rightType of
        Some t \<Rightarrow> Inr t
      | None \<Rightarrow>
          if \<not> (isString leftType \<and> isString rightType)
          then (case checkTypeMatch cr rightType leftType of
                  Inl err \<Rightarrow> Inl err
                | Inr u \<Rightarrow> Inr leftType)
          else Inr leftType)"

definition checkSetHasBit :: "cast_rules \<Rightarrow> otype \<Rightarrow> otype \<Rightarrow> error + unit" where
  "checkSetHasBit cr leftType rightType =
     (if \<not> isInt leftType then Inl (SetElementIntegerExpected leftType)
      else checkImplicitCast cr rightType (Basic T_set))"

text \<open>
  The \<open>switch\<close> of \<open>relationOp\<close>: the operation and, when none resolves, the classes
  the error message names. For IS and IN no mismatch is ever recorded.
\<close>

definition relationSwitch :: "string \<Rightarrow> otype option \<Rightarrow> operator option \<times> string option" where
  "relationSwitch literal t =
     (let pick = (\<lambda>f expect. case t of
                     None \<Rightarrow> (None, Some expect)
                   | Some u \<Rightarrow> (case f u of None \<Rightarrow> (None, Some expect) | Some p \<Rightarrow> (Some p, None)))
      in if literal = ''='' then pick RelationOps_eq eqExpect
         else if literal = ''#'' then pick RelationOps_notEq eqExpect
         else if literal = ''<'' then pick RelationOps_less strongRelExpect
         else if literal = ''>'' then pick RelationOps_greater strongRelExpect
         else if literal = ''<='' then pick RelationOps_lessEq relExpect
         else if literal = ''>='' then pick RelationOps_greaterEq relExpect
         else if literal = ''IS'' then (map_option is_op t, None)
         else if literal = ''IN'' then (Some setHasBit, None)
         else (None, None))"

definition relationType :: "cast_rules \<Rightarrow> otype \<Rightarrow> otype \<Rightarrow> string \<Rightarrow> error + otype option" where
  "relationType cr leftType rightType literal =
     (if literal = ''IS'' then map_sum id Some (unwrapType rightType)
      else if literal = ''IN'' then map_sum id (\<lambda>u. None) (checkSetHasBit cr leftType rightType)
      else map_sum id Some (coalesceType cr leftType rightType))"

definition relationOp ::
    "cast_rules \<Rightarrow> otype \<Rightarrow> otype \<Rightarrow> string \<Rightarrow> error + operator option" where
  "relationOp cr leftType rightType literal =
     (case relationType cr leftType rightType literal of
        Inl err \<Rightarrow> Inl err
      | Inr t \<Rightarrow>
          (case relationSwitch literal t of
             (p, Some mismatch) \<Rightarrow> Inl (OperatorTypeMismatch literal mismatch t)
           | (p, None) \<Rightarrow> Inr p))"

section \<open>Set literals (exports.Set, exports.SetElement)\<close>

text \<open>
  The set value is a JavaScript int32: \<open>|=\<close> and \<open><<\<close> work on 32-bit words, and the
  shift count is taken modulo 32. \<open>int32\<close> reads the word back as the signed number
  that \<open>toString\<close> prints.
\<close>

definition int32 :: "32 word \<Rightarrow> int" where
  "int32 w = sint w"

definition shl1 :: "int \<Rightarrow> 32 word" where
  "shl1 i = push_bit (nat (i mod 32)) 1"

record set_element =
  el_from :: "string option"
  el_fromValue :: "const option"
  el_to :: "string option"
  el_toValue :: "const option"

record set_element_state =
  se_from :: "string option"
  se_fromValue :: "const option"
  se_to :: "string option"
  se_toValue :: "const option"
  se_expr :: string

definition SetElement_init :: set_element_state where
  "SetElement_init = \<lparr>se_from = None, se_fromValue = None, se_to = None, se_toValue = None,
     se_expr = []\<rparr>"

definition SetElement_handleExpression :: "set_element_state \<Rightarrow> expression \<Rightarrow> set_element_state" where
  "SetElement_handleExpression st e =
     (let v = e_constValue e in
      if \<not> truthy (se_from st)
      then st\<lparr>se_from := Some (se_expr st), se_fromValue := v, se_expr := []\<rparr>
      else st\<lparr>se_to := Some (se_expr st), se_toValue := v\<rparr>)"

text \<open>
  An expression ending inside a set element writes its code to the element's own
  generator (\<open>Expression.endParse\<close>), then the element handles it.
\<close>

definition SetElement_expression :: "set_element_state \<Rightarrow> expression \<Rightarrow> set_element_state" where
  "SetElement_expression st e =
     SetElement_handleExpression (st\<lparr>se_expr := se_expr st @ e_code e\<rparr>) e"

definition SetElement_endParse :: "set_element_state \<Rightarrow> set_element" where
  "SetElement_endParse st =
     \<lparr>el_from = se_from st, el_fromValue = se_fromValue st, el_to = se_to st,
      el_toValue = se_toValue st\<rparr>"

record set_state =
  set_value :: "32 word"
  set_expr :: string

definition Set_init :: set_state where
  "Set_init = \<lparr>set_value = 0, set_expr = []\<rparr>"

text \<open>
  \<open>Set.handleElement\<close>. For a constant range the loop \<open>for (i = from; i <= to; ++i)\<close>
  runs over numbers: between safe integers \<open>++i\<close> is exact and the loop visits
  \<open>from, ..., to\<close>. Beyond them \<open>++i\<close> need not advance and the loop need not end;
  the model gives no state there (\<open>None\<close>).
\<close>

definition Set_handleElement :: "set_state \<Rightarrow> set_element \<Rightarrow> set_state option" where
  "Set_handleElement st el =
     (if el_fromValue el \<noteq> None \<and> (\<not> truthy (el_to el) \<or> el_toValue el \<noteq> None)
      then
        (case (el_fromValue el, el_toValue el) of
           (Some fv, Some tv) \<Rightarrow>
             if truthy (el_to el)
             then (if isSafeInteger (cvalue fv) \<and> isSafeInteger (cvalue tv)
                   then Some (st\<lparr>set_value :=
                                 fold (\<lambda>i v. v OR shl1 i) [cvalue fv..cvalue tv] (set_value st)\<rparr>)
                   else None)
             else Some (st\<lparr>set_value := set_value st OR shl1 (cvalue fv)\<rparr>)
         | (Some fv, None) \<Rightarrow> Some (st\<lparr>set_value := set_value st OR shl1 (cvalue fv)\<rparr>)
         | (None, tv) \<Rightarrow> Some st)
      else
        (let sep = (if set_expr st \<noteq> [] then '', '' else [])
         in if truthy (el_to el)
            then Some (st\<lparr>set_expr := set_expr st @ sep @ ''['' @ js_str (el_from el) @ '', ''
                                        @ js_str (el_to el) @ '']''\<rparr>)
            else Some (st\<lparr>set_expr := set_expr st @ sep @ js_str (el_from el)\<rparr>)))"

datatype factor_event =
    HandleConst otype const string
  | HandleFactor expression

definition Set_endParse ::
    "(int \<Rightarrow> string) \<Rightarrow> (string \<Rightarrow> string) \<Rightarrow> set_state \<Rightarrow> factor_event" where
  "Set_endParse expo makeSet st =
     (if set_expr st = []
      then HandleConst (Basic T_set) (SetConst (int32 (set_value st)))
             (toString_num expo (int32 (set_value st)))
      else
        let code = makeSet (set_expr st);
            code' = (if set_value st \<noteq> 0
                     then code @ '' | '' @ toString_num expo (int32 (set_value st))
                     else code)
        in HandleFactor (makeExpression code' (Basic T_set) None None))"

text \<open>
  A member of a set literal, as the grammar gives it: one expression, or two for a
  range. \<open>SetElement_member\<close> is the \<open>SetElement\<close> context over it: each expression
  ends in the context, then the context ends and hands its element to the set.
\<close>

datatype member = Element expression | Range expression expression

fun memberExpressions :: "member \<Rightarrow> expression list" where
  "memberExpressions (Element e) = [e]"
| "memberExpressions (Range e1 e2) = [e1, e2]"

definition SetElement_member :: "member \<Rightarrow> set_element" where
  "SetElement_member m =
     SetElement_endParse (foldl SetElement_expression SetElement_init (memberExpressions m))"

text \<open>The elements of a literal reach the set in order; a step without a state ends the run.\<close>

fun Set_elements :: "set_state \<Rightarrow> set_element list \<Rightarrow> set_state option" where
  "Set_elements st [] = Some st"
| "Set_elements st (el # els) =
     (case Set_handleElement st el of
        None \<Rightarrow> None
      | Some st' \<Rightarrow> Set_elements st' els)"

text \<open>A whole set literal: its members in order, then the closing brace.\<close>

definition Set_literal ::
    "(int \<Rightarrow> string) \<Rightarrow> (string \<Rightarrow> string) \<Rightarrow> member list \<Rightarrow> factor_event option" where
  "Set_literal expo makeSet ms =
     map_option (Set_endParse expo makeSet)
       (Set_elements Set_init (map SetElement_member ms))"











section \<open>Type sections (exports.TypeSection)\<close>

text \<open>
  Modelled from the spec: js/Scope.js is not at hand. A scope holds its symbols in
  insertion order and the outstanding forward-type markers; \<open>addUnresolved\<close> records a
  marker once, and \<open>resolve\<close> withdraws the marker of a type that has been defined.
\<close>

record scope_state =
  sc_symbols :: "(string \<times> info) list"
  sc_unresolved :: "string list"

definition addUnresolved :: "scope_state \<Rightarrow> string \<Rightarrow> scope_state" where
  "addUnresolved sc n =
     (if n \<in> set (sc_unresolved sc) then sc else sc\<lparr>sc_unresolved := sc_unresolved sc @ [n]\<rparr>)"

definition resolve :: "scope_state \<Rightarrow> string \<Rightarrow> scope_state" where
  "resolve sc n = sc\<lparr>sc_unresolved := filter (\<lambda>m. m \<noteq> n) (sc_unresolved sc)\<rparr>"

definition unresolved :: "scope_state \<Rightarrow> string list" where
  "unresolved sc = sc_unresolved sc"

text \<open>\<open>TypeSection.handleMessage\<close> for a forward-type message.\<close>

definition TypeSection_handleForwardTypeMsg :: "scope_state \<Rightarrow> string \<Rightarrow> scope_state" where
  "TypeSection_handleForwardTypeMsg sc n = addUnresolved sc n"

definition TypeSection_endParse :: "scope_state \<Rightarrow> error + unit" where
  "TypeSection_endParse sc =
     (if unresolved sc \<noteq> [] then Inl (NoDeclarationFound (unresolved sc)) else Inr ())"

text \<open>
  A type section as a run of events on its scope: a forward reference to a type name
  from a pointer declaration (\<open>PointerDecl.handleQIdent\<close> sends the message when the
  name is not yet declared), and a type declaration, whose \<open>handleIdentdef\<close> adds the
  symbol and whose \<open>setType\<close> resolves it in the scope. Adding a symbol twice is
  refused by the scope; the runs considered here are those the scope accepts.
\<close>

datatype type_event = ForwardType string | DeclareType string otype

definition TypeDeclaration_handleIdentdef :: "scope_state \<Rightarrow> string \<Rightarrow> otype \<Rightarrow> scope_state" where
  "TypeDeclaration_handleIdentdef sc n t = sc\<lparr>sc_symbols := sc_symbols sc @ [(n, TypeId t)]\<rparr>"

definition TypeDeclaration_setType :: "scope_state \<Rightarrow> string \<Rightarrow> scope_state" where
  "TypeDeclaration_setType sc n = resolve sc n"

fun TypeSection_event :: "scope_state \<Rightarrow> type_event \<Rightarrow> scope_state" where
  "TypeSection_event sc (ForwardType n) = TypeSection_handleForwardTypeMsg sc n"
| "TypeSection_event sc (DeclareType n t) =
     TypeDeclaration_setType (TypeDeclaration_handleIdentdef sc n t) n"

definition TypeSection_run :: "scope_state \<Rightarrow> type_event list \<Rightarrow> error + unit" where
  "TypeSection_run sc evs = TypeSection_endParse (foldl TypeSection_event sc evs)"

text \<open>The names a run declares, and the names it refers to before their declaration.\<close>

definition declared :: "type_event list \<Rightarrow> string set" where
  "declared evs = {n. \<exists>t. DeclareType n t \<in> set evs}"

definition forwarded :: "type_event list \<Rightarrow> string set" where
  "forwarded evs = {n. ForwardType n \<in> set evs}"

text \<open>The text of the error: the names joined by \<open>', '\<close> between quotes.\<close>

fun join :: "string \<Rightarrow> string list \<Rightarrow> string" where
  "join sep [] = []"
| "join sep [x] = x"
| "join sep (x # y # ys) = x @ sep @ join sep (y # ys)"

definition noDeclarationMessage :: "string list \<Rightarrow> string" where
  "noDeclarationMessage ns = ''no declaration found for '' @ [CHR 0x27] @ join ([CHR 0x27] @ '', '' @ [CHR 0x27]) ns @ [CHR 0x27]"

section \<open>Record declarations (exports.RecordDecl)\<close>

definition qualifiedBaseConstructor :: "(scope \<Rightarrow> string) \<Rightarrow> rec_t \<Rightarrow> string" where
  "qualifiedBaseConstructor qualify r =
     (case recordBase r of
        None \<Rightarrow> []
      | Some baseType \<Rightarrow> qualify (recordScope baseType) @ typeName baseType)"

definition generateBaseConstructorCallCode :: "(scope \<Rightarrow> string) \<Rightarrow> rec_t \<Rightarrow> string" where
  "generateBaseConstructorCallCode qualify r =
     (let result = qualifiedBaseConstructor qualify r
      in if result \<noteq> [] then result @ ''.call(this);'' @ [CHR 0x0A] else [])"

text \<open>
  \<open>initializer\<close> is the field type's default initializer and \<open>mangleField\<close> the
  property name of a field (js/Types.js, not at hand). The loop runs over the record's
  own fields in insertion order.
\<close>

definition generateFieldsInitializationCode ::
    "(otype \<Rightarrow> string) \<Rightarrow> (string \<Rightarrow> otype \<Rightarrow> string) \<Rightarrow> rec_t \<Rightarrow> string" where
  "generateFieldsInitializationCode initializer mangleField r =
     foldl (\<lambda>result (f, fieldType).
              result @ ''this.'' @ mangleField f fieldType @ '' = '' @ initializer fieldType
                     @ '';'' @ [CHR 0x0A])
       [] (recordOwnFields r)"

definition generateConstructor ::
    "(scope \<Rightarrow> string) \<Rightarrow> (otype \<Rightarrow> string) \<Rightarrow> (string \<Rightarrow> otype \<Rightarrow> string) \<Rightarrow> rec_t \<Rightarrow> gen" where
  "generateConstructor qualify initializer mangleField r =
     [Write (''function '' @ rec_cons r @ ''()''),
      OpenScope,
      Write (generateBaseConstructorCallCode qualify r
             @ generateFieldsInitializationCode initializer mangleField r),
      CloseScope []]"

text \<open>
  The words of the specification about constructors: the initialization statement of
  one field, the call of the base constructor, and a record whose base, if any, has a
  type name (a base is named through a type identifier, and a record declared under a
  type identifier carries that name).
\<close>

definition fieldInit :: "(otype \<Rightarrow> string) \<Rightarrow> (string \<Rightarrow> otype \<Rightarrow> string) \<Rightarrow> string \<times> otype \<Rightarrow> string" where
  "fieldInit initializer mangleField fld =
     ''this.'' @ mangleField (fst fld) (snd fld) @ '' = '' @ initializer (snd fld) @ '';'' @ [CHR 0x0A]"

definition baseCall :: "(scope \<Rightarrow> string) \<Rightarrow> rec_t \<Rightarrow> string" where
  "baseCall qualify r =
     (case rec_base r of
        None \<Rightarrow> []
      | Some b \<Rightarrow> qualify (rec_scope b) @ rec_name b @ ''.call(this);'' @ [CHR 0x0A])"

definition namedBase :: "rec_t \<Rightarrow> bool" where
  "namedBase r = (case rec_base r of None \<Rightarrow> True | Some b \<Rightarrow> rec_name b \<noteq> [])"

section \<open>Terms (exports.Term)\<close>

text \<open>
  The pending multiplication operator of a term is applied by \<open>applyOp\<close>, and \<open>op.not\<close>
  is \<open>opNot\<close> (js/Operator.js, not at hand).
\<close>

record 'op term_state =
  t_logicalNot :: bool
  t_operator :: "'op option"
  t_expression :: "expression option"

definition Term_init :: "'op term_state" where
  "Term_init = \<lparr>t_logicalNot = False, t_operator = None, t_expression = None\<rparr>"

definition promoteExpressionType :: "cast_rules \<Rightarrow> expression option \<Rightarrow> expression \<Rightarrow> error + unit" where
  "promoteExpressionType cr left right =
     (case left of
        None \<Rightarrow> Inr ()
      | Some l \<Rightarrow> checkImplicitCast cr (e_type right) (e_type l))"

definition Term_handleExpression ::
    "cast_rules \<Rightarrow> (expression \<Rightarrow> expression) \<Rightarrow> ('op \<Rightarrow> expression option \<Rightarrow> expression \<Rightarrow> expression)
       \<Rightarrow> 'op term_state \<Rightarrow> expression \<Rightarrow> error + 'op term_state" where
  "Term_handleExpression cr opNot applyOp st e =
     (case promoteExpressionType cr (t_expression st) e of
        Inl err \<Rightarrow> Inl err
      | Inr u \<Rightarrow>
          let e1 = (if t_logicalNot st then opNot e else e);
              st1 = st\<lparr>t_logicalNot := False\<rparr>;
              e2 = (case t_operator st1 of
                      None \<Rightarrow> e1
                    | Some p \<Rightarrow> applyOp p (t_expression st1) e1)
          in Inr (st1\<lparr>t_expression := Some e2\<rparr>))"

fun procedureIsStd :: "otype \<Rightarrow> bool" where
  "procedureIsStd (Procedure Std n) = True"
| "procedureIsStd t = False"

fun isProcedureScope :: "scope option \<Rightarrow> bool" where
  "isProcedureScope (Some (Scope_Procedure k)) = True"
| "isProcedureScope s = False"

fun constValueOf :: "info \<Rightarrow> const option" where
  "constValueOf (Const t v) = v"
| "constValueOf i = None"

definition Term_setDesignator ::
    "cast_rules \<Rightarrow> (expression \<Rightarrow> expression) \<Rightarrow> ('op \<Rightarrow> expression option \<Rightarrow> expression \<Rightarrow> expression)
       \<Rightarrow> 'op term_state \<Rightarrow> designator \<Rightarrow> error + 'op term_state" where
  "Term_setDesignator cr opNot applyOp st d =
     (let continue = Term_handleExpression cr opNot applyOp st
                       (makeExpression (d_code d) (d_type d) (Some d) (constValueOf (d_info d)))
      in case d_info d of
           ProcedureId proc \<Rightarrow>
             if procedureIsStd proc then Inl (StdProcCannotBeReferenced proc)
             else if isProcedureScope (d_scope d) then Inl (LocalProcCannotBeReferenced (d_code d))
             else continue
         | i \<Rightarrow> continue)"

section \<open>Example inputs\<close>

text \<open>
  A constant INTEGER expression whose code is the decimal text of its value, and an
  INTEGER expression without a constant, such as a variable. \<open>expo0\<close> stands for the
  floating-point formatting; the examples use safe integers, where it is not consulted.
\<close>

definition intLiteral :: "int \<Rightarrow> expression" where
  "intLiteral n = makeExpression (decimal n) (Basic T_integer) None (Some (IntConst n))"

definition intVariable :: "string \<Rightarrow> expression" where
  "intVariable x = makeExpression x (Basic T_integer) None None"

definition expo0 :: "int \<Rightarrow> string" where
  "expo0 i = ''1e+21''"

text \<open>
  A module \<open>M\<close> with \<open>A = RECORD a: INTEGER; b: BOOLEAN END\<close>,
  \<open>B = RECORD (A) c: REAL END\<close>, \<open>D = RECORD (B) END\<close> and an unrelated
  \<open>C = RECORD END\<close>; the pointer type identifiers 1 to 4 resolve to them.
\<close>

definition recA :: rec_t where
  "recA = RecordT 1 ''A'' ''A'' None [(''a'', Basic T_integer), (''b'', Basic T_bool)]
            (Scope_Module ''M'')"

definition recB :: rec_t where
  "recB = RecordT 2 ''B'' ''B'' (Some recA) [(''c'', Basic T_real)] (Scope_Module ''M'')"

definition recD :: rec_t where
  "recD = RecordT 3 ''D'' ''D'' (Some recB) [] (Scope_Module ''M'')"

definition recC :: rec_t where
  "recC = RecordT 4 ''C'' ''C'' None [] (Scope_Module ''M'')"

definition tenv0 :: tenv where
  "tenv0 h = (if h = 1 then recA else if h = 2 then recB else if h = 3 then recD else recC)"

text \<open>
  Stand-ins for collaborators that are not at hand, used in the examples only:
  \<open>checkIndex0\<close> refuses negative indices, \<open>scalar0\<close> holds of basic, pointer and
  procedure types, \<open>makeRef0\<close> writes a call of the runtime library.
\<close>

definition checkIndex0 :: "int \<Rightarrow> error option" where
  "checkIndex0 i = (if i < 0 then Some (IndexRejected i) else None)"

definition scalar0 :: "otype \<Rightarrow> bool" where
  "scalar0 t = (case t of Basic b \<Rightarrow> True | Pointer n h \<Rightarrow> True | Procedure k n \<Rightarrow> True | u \<Rightarrow> False)"

definition makeRef0 :: "string \<Rightarrow> string \<Rightarrow> string" where
  "makeRef0 obj prop = ''RTL$.makeRef('' @ obj @ '', '' @ prop @ '')''"

text \<open>
  Designators in the middle of an index step, after the opening bracket: the constant
  \<open>s = ""\<close> indexed by \<open>0\<close>, an \<open>ARRAY 3 OF INTEGER\<close> variable \<open>a\<close> indexed by an
  expression, and the INTEGER variable \<open>x\<close> of a procedure, reached directly.
\<close>

definition emptyStringIndexed :: designator_state where
  "emptyStringIndexed = \<lparr>ds_currentType = String [], ds_info = Const (String []) None,
     ds_scope = Some (Scope_Module ''M''), ds_code = [], ds_lval = None,
     ds_indexExpression = Some (intLiteral 0), ds_derefCode = Some ''s'', ds_propCode = None\<rparr>"

definition arrayIndexed :: "expression \<Rightarrow> designator_state" where
  "arrayIndexed e = \<lparr>ds_currentType = StaticArray ''RTL$.makeArray(3, 0)'' (Basic T_integer) 3,
     ds_info = Variable (StaticArray ''RTL$.makeArray(3, 0)'' (Basic T_integer) 3) False False,
     ds_scope = Some (Scope_Module ''M''), ds_code = [], ds_lval = None,
     ds_indexExpression = Some e, ds_derefCode = Some ''a'', ds_propCode = None\<rparr>"

definition localX :: designator_state where
  "localX = \<lparr>ds_currentType = Basic T_integer, ds_info = Variable (Basic T_integer) False False,
     ds_scope = Some (Scope_Procedure 0), ds_code = ''x'', ds_lval = None,
     ds_indexExpression = None, ds_derefCode = None, ds_propCode = None\<rparr>"

text \<open>
  Cast rules for the examples: types match when they are equal, and only equal types
  cast implicitly.
\<close>

definition castRules0 :: cast_rules where
  "castRules0 = \<lparr>areTypesMatch = (\<lambda>a b. a = b), findPointerBaseType = (\<lambda>a b. None),
     implicitCast = (\<lambda>a b. a \<noteq> b)\<rparr>"

text \<open>\<open>makeSet0\<close> stands for the runtime library's set builder.\<close>

definition makeSet0 :: "string \<Rightarrow> string" where
  "makeSet0 a = ''RTL$.makeSet('' @ a @ '')''"

text \<open>
  An empty scope; stand-ins for the default initializer, the field name mangling and
  the scope qualifier inside one module; the designator of a procedure name.
\<close>

definition emptyScope :: scope_state where
  "emptyScope = \<lparr>sc_symbols = [], sc_unresolved = []\<rparr>"

definition initializer0 :: "otype \<Rightarrow> string" where
  "initializer0 t = (case t of Basic T_bool \<Rightarrow> ''false'' | Pointer n h \<Rightarrow> ''null'' | u \<Rightarrow> ''0'')"

definition mangleField0 :: "string \<Rightarrow> otype \<Rightarrow> string" where
  "mangleField0 f t = f"

definition qualify0 :: "scope \<Rightarrow> string" where
  "qualify0 sc = []"

definition procDesignator :: "proc_kind \<Rightarrow> string \<Rightarrow> scope option \<Rightarrow> designator" where
  "procDesignator k n sc = \<lparr>d_code = n, d_lval = n, d_type = Procedure k n,
     d_info = ProcedureId (Procedure k n), d_scope = sc\<rparr>"


section \<open>Properties of number texts\<close>

lemma decimal_examples:
  "decimal 0 = ''0''" "decimal 1 = ''1''" "decimal 2 = ''2''" "decimal 3 = ''3''"
  "decimal 5 = ''5''" "decimal 10 = ''10''" "decimal 58 = ''58''" "decimal (- 1) = ''-1''"
  by (simp_all add: decimal_def digits.simps digit_def)

lemma toString_num_safe: "isSafeInteger i \<Longrightarrow> toString_num expo i = decimal i"
  by (simp add: toString_num_def)

lemma digit_facts:
  "digit n \<in> set ''0123456789''" "of_char (digit n) = 48 + n mod 10"
proof -
  have "n mod 10 < 10" by simp
  then have c: "n mod 10 = 0 \<or> n mod 10 = 1 \<or> n mod 10 = 2 \<or> n mod 10 = 3 \<or> n mod 10 = 4
      \<or> n mod 10 = 5 \<or> n mod 10 = 6 \<or> n mod 10 = 7 \<or> n mod 10 = 8 \<or> n mod 10 = 9"
    by arith
  from c show "digit n \<in> set ''0123456789''"
    unfolding digit_def by (elim disjE) simp_all
  from c show "of_char (digit n) = 48 + n mod 10"
    unfolding digit_def by (elim disjE) simp_all
qed

lemma digits_chars: "digits n \<noteq> [] \<and> (\<forall>c\<in>set (digits n). c \<in> set ''0123456789'')"
proof (induction n rule: digits.induct)
  case (1 n)
  show ?case
  proof (cases "n < 10")
    case True
    then have "digits n = [digit n]" by (simp add: digits.simps)
    then show ?thesis using digit_facts(1) [of n] by simp
  next
    case False
    then have "digits n = digits (n div 10) @ [digit n]" by (simp add: digits.simps)
    then show ?thesis using 1 False digit_facts(1) [of n] by simp
  qed
qed

lemma digits_fold:
  "foldl (\<lambda>a c. 10 * a + (of_char c - 48)) 0 (digits n) = n"
proof (induction n rule: digits.induct)
  case (1 n)
  show ?case
  proof (cases "n < 10")
    case True
    then have "digits n = [digit n]" by (simp add: digits.simps)
    then show ?thesis using True by (simp add: digit_facts(2))
  next
    case False
    then have "digits n = digits (n div 10) @ [digit n]" by (simp add: digits.simps)
    then show ?thesis using 1 False by (simp add: digit_facts(2))
  qed
qed

lemma digitsValue_digits: "digitsValue (digits n) = Some n"
  using digits_chars [of n] digits_fold [of n] by (simp add: digitsValue_def)

lemma intOfText_decimal: "intOfText (decimal i) = Some i"
proof (cases "i < 0")
  case True
  then show ?thesis by (simp add: intOfText_def decimal_def digitsValue_digits)
next
  case False
  have "hd (digits (nat i)) \<in> set ''0123456789''"
    using digits_chars [of "nat i"] by (cases "digits (nat i)") auto
  then have "hd (digits (nat i)) \<noteq> CHR ''-''" by auto
  with False show ?thesis by (simp add: intOfText_def decimal_def digitsValue_digits)
qed

section \<open>Properties of the counted loop\<close>

text \<open>What a loop header that was accepted looked like, and what it wrote.\<close>

lemma For_header_Inr:
  assumes "For_header expo ident found ini lim step = Inr st"
  shows "(\<exists>ro r. found = Some (Variable (Basic T_integer) ro r))
       \<and> e_type ini = Basic T_integer \<and> e_type lim = Basic T_integer
       \<and> (case step of None \<Rightarrow> for_by st = None
           | Some b \<Rightarrow> e_type b = Basic T_integer
               \<and> (\<exists>c. e_constValue b = Some c \<and> for_by st = Some (cvalue c)))
       \<and> for_out st = [Write (''for ('' @ ident @ '' = ''), Write (e_code ini),
             Write (''; '' @ ident @ For_relation (for_by st) @ e_code lim @ ''; ''
                    @ For_step expo (Some ident) (for_by st) @ '')''), OpenScope]"
  using assms
  unfolding For_header_def For_handleIdent_def For_expression_def For_handleExpression_def
    For_handleInitExpression_def For_write_def For_codeGenerator_def For_handleBegin_def
    For_init_def Let_def
  by (auto split: option.splits info.splits if_splits sum.splits simp: js_str_def)

text \<open>The header of a loop whose control variable, initial value and limit are INTEGER.\<close>

lemma For_header_typed:
  assumes "found = Some (Variable (Basic T_integer) ro r)"
    and "e_type ini = Basic T_integer" and "e_type lim = Basic T_integer"
  shows "For_header expo ident found ini lim None = Inr (For_handleBegin expo
           (For_init\<lparr>for_var := Some ident,
              for_out := [Write (''for ('' @ ident @ '' = ''), Write (e_code ini)],
              for_initExprParsed := True, for_toExpr := e_code lim, for_toParsed := True\<rparr>))"
    and "For_header expo ident found ini lim (Some b) =
       (if e_type b \<noteq> Basic T_integer then Inl (ForByIntegerExpected (e_type b))
        else case e_constValue b of
               None \<Rightarrow> Inl ForByConstantExpected
             | Some c \<Rightarrow> Inr (For_handleBegin expo
                 (For_init\<lparr>for_var := Some ident,
                    for_out := [Write (''for ('' @ ident @ '' = ''), Write (e_code ini)],
                    for_initExprParsed := True, for_toExpr := e_code lim, for_toParsed := True,
                    for_by := Some (cvalue c)\<rparr>)))"
  using assms
  unfolding For_header_def For_handleIdent_def For_expression_def For_handleExpression_def
    For_handleInitExpression_def For_write_def For_codeGenerator_def For_init_def Let_def
  by (auto split: option.splits)

lemma small_safe:
  "isSafeInteger 0" "isSafeInteger 1" "isSafeInteger 2" "isSafeInteger 58" "isSafeInteger (- 1)"
  by (simp_all add: isSafeInteger_def)

lemma For_down_header:
  "For_header expo0 ''i'' (Some (Variable (Basic T_integer) False False))
       (intLiteral 10) (intLiteral 1) (Some (intLiteral (- 1)))
   = Inr \<lparr>for_var = Some ''i'', for_initExprParsed = True, for_toExpr = ''1'',
          for_toParsed = True, for_by_parsed = True, for_by = Some (- 1),
          for_out = [Write ''for (i = '', Write ''10'', Write ''; i >= 1; i -= 1)'', OpenScope]\<rparr>"
  by (simp add: For_header_typed [where ro = False and r = False] intLiteral_def makeExpression_def
      For_handleBegin_def For_init_def For_write_def For_codeGenerator_def For_relation_def
      For_step_def js_str_def decimal_examples toString_num_safe small_safe Let_def)

text \<open>
  C1, as the code has it: \<open>FOR i := 10 TO 1 BY 0\<close> is accepted. The translator has no
  check of the step against zero; the header is emitted with the non-decreasing
  comparison and the increment \<open>i += 0\<close>.
\<close>

theorem For_zero_step_accepted:
  "For_header expo0 ''i'' (Some (Variable (Basic T_integer) False False))
       (intLiteral 10) (intLiteral 1) (Some (intLiteral 0))
   = Inr \<lparr>for_var = Some ''i'', for_initExprParsed = True, for_toExpr = ''1'',
          for_toParsed = True, for_by_parsed = True, for_by = Some 0,
          for_out = [Write ''for (i = '', Write ''10'', Write ''; i <= 1; i += 0)'', OpenScope]\<rparr>"
  by (simp add: For_header_typed [where ro = False and r = False] intLiteral_def makeExpression_def
      For_handleBegin_def For_init_def For_write_def For_codeGenerator_def For_relation_def
      For_step_def js_str_def decimal_examples toString_num_safe small_safe Let_def)

text \<open>
  C1, amended: in a counted loop with an INTEGER control variable, initial value and
  limit, a BY expression must be of type INTEGER, else the loop fails with the
  "INTEGER expression expected as BY parameter" error, and must carry a compile-time
  constant, else it fails with "constant expression expected as BY parameter"; every
  constant step, zero included, is accepted and recorded as the loop's step.
\<close>

theorem For_step_requirements:
  assumes "found = Some (Variable (Basic T_integer) ro r)"
    and "e_type ini = Basic T_integer" and "e_type lim = Basic T_integer"
  shows "(e_type b \<noteq> Basic T_integer \<longrightarrow>
            For_header expo ident found ini lim (Some b) = Inl (ForByIntegerExpected (e_type b)))
       \<and> (e_type b = Basic T_integer \<longrightarrow> e_constValue b = None \<longrightarrow>
            For_header expo ident found ini lim (Some b) = Inl ForByConstantExpected)
       \<and> (\<forall>c. e_type b = Basic T_integer \<longrightarrow> e_constValue b = Some c \<longrightarrow>
            (\<exists>st. For_header expo ident found ini lim (Some b) = Inr st
                  \<and> for_by st = Some (cvalue c)))"
  by (simp add: For_header_typed(2) [OF assms] For_handleBegin_def For_write_def Let_def
      split: for_target.split)

theorem For_step_requirements_witness:
  "\<exists>st. For_header expo0 ''i'' (Some (Variable (Basic T_integer) False False))
       (intLiteral 1) (intLiteral 10) (Some (intLiteral 2)) = Inr st \<and> for_by st = Some 2"
  using For_step_requirements [of "Some (Variable (Basic T_integer) False False)" False False
          "intLiteral 1" "intLiteral 10" "intLiteral 2" expo0 "''i''"]
  by (simp add: intLiteral_def makeExpression_def)

text \<open>
  C9: the header of every accepted counted loop is \<open>for (i = init; i rel limit; inc)\<close>
  followed by an opened block. Without a step the comparison is \<open><=\<close> and the increment
  \<open>++i\<close>. With a negative constant step the comparison is \<open>>=\<close> and the increment is
  \<open>i -= \<close> followed by the text of the step's magnitude; with a non-negative constant
  step the comparison is \<open><=\<close> and the increment is \<open>i += \<close> followed by the text of
  the step. For a step that is a safe integer that text is a decimal numeral that reads
  back as the magnitude, or the step, itself.
\<close>

theorem For_header_direction:
  assumes "For_header expo ident found ini lim step = Inr st"
  shows "\<exists>rel inc.
           for_out st = [Write (''for ('' @ ident @ '' = ''), Write (e_code ini),
                         Write (''; '' @ ident @ rel @ e_code lim @ ''; '' @ inc @ '')''),
                         OpenScope]
         \<and> (step = None \<longrightarrow> rel = '' <= '' \<and> inc = ''++'' @ ident)
         \<and> (\<forall>b c. step = Some b \<longrightarrow> e_constValue b = Some c \<longrightarrow> cvalue c < 0 \<longrightarrow>
               rel = '' >= '' \<and> inc = ident @ '' -= '' @ toString_num expo (- cvalue c)
               \<and> (isSafeInteger (cvalue c) \<longrightarrow>
                    intOfText (toString_num expo (- cvalue c)) = Some (- cvalue c)))
         \<and> (\<forall>b c. step = Some b \<longrightarrow> e_constValue b = Some c \<longrightarrow> 0 \<le> cvalue c \<longrightarrow>
               rel = '' <= '' \<and> inc = ident @ '' += '' @ toString_num expo (cvalue c)
               \<and> (isSafeInteger (cvalue c) \<longrightarrow>
                    intOfText (toString_num expo (cvalue c)) = Some (cvalue c)))"
proof -
  let ?rel = "For_relation (for_by st)" and ?inc = "For_step expo (Some ident) (for_by st)"
  from For_header_Inr [OF assms]
  have out: "for_out st = [Write (''for ('' @ ident @ '' = ''), Write (e_code ini),
               Write (''; '' @ ident @ ?rel @ e_code lim @ ''; '' @ ?inc @ '')''), OpenScope]"
    and stp: "case step of None \<Rightarrow> for_by st = None
             | Some b \<Rightarrow> e_type b = Basic T_integer
                 \<and> (\<exists>c. e_constValue b = Some c \<and> for_by st = Some (cvalue c))"
    by simp_all
  have safe_neg: "isSafeInteger i \<Longrightarrow> isSafeInteger (- i)" for i
    by (auto simp: isSafeInteger_def)
  have reads: "isSafeInteger i \<Longrightarrow> intOfText (toString_num expo i) = Some i" for i
    by (simp add: toString_num_safe intOfText_decimal)
  have none: "step = None \<longrightarrow> ?rel = '' <= '' \<and> ?inc = ''++'' @ ident"
    using stp by (auto simp: For_relation_def For_step_def js_str_def)
  have neg: "\<forall>b c. step = Some b \<longrightarrow> e_constValue b = Some c \<longrightarrow> cvalue c < 0 \<longrightarrow>
               ?rel = '' >= '' \<and> ?inc = ident @ '' -= '' @ toString_num expo (- cvalue c)
               \<and> (isSafeInteger (cvalue c) \<longrightarrow>
                    intOfText (toString_num expo (- cvalue c)) = Some (- cvalue c))"
    using stp reads safe_neg by (auto simp: For_relation_def For_step_def js_str_def)
  have pos: "\<forall>b c. step = Some b \<longrightarrow> e_constValue b = Some c \<longrightarrow> 0 \<le> cvalue c \<longrightarrow>
               ?rel = '' <= '' \<and> ?inc = ident @ '' += '' @ toString_num expo (cvalue c)
               \<and> (isSafeInteger (cvalue c) \<longrightarrow>
                    intOfText (toString_num expo (cvalue c)) = Some (cvalue c))"
    using stp reads by (auto simp: For_relation_def For_step_def js_str_def)
  from out none neg pos show ?thesis by blast
qed

theorem For_header_direction_witness:
  "For_header expo0 ''i'' (Some (Variable (Basic T_integer) False False))
       (intLiteral 10) (intLiteral 1) (Some (intLiteral (- 1)))
   = Inr \<lparr>for_var = Some ''i'', for_initExprParsed = True, for_toExpr = ''1'',
          for_toParsed = True, for_by_parsed = True, for_by = Some (- 1),
          for_out = [Write ''for (i = '', Write ''10'', Write ''; i >= 1; i -= 1)'', OpenScope]\<rparr>
   \<and> (\<exists>rel inc. [Write ''for (i = '', Write ''10'', Write ''; i >= 1; i -= 1)'', OpenScope]
          = [Write ''for (i = '', Write ''10'', Write (''; i'' @ rel @ ''1; '' @ inc @ '')''),
             OpenScope]
        \<and> rel = '' >= '' \<and> inc = ''i -= 1'' \<and> intOfText ''1'' = Some 1)"
proof -
  note h = For_down_header
  from For_header_direction [OF h]
  obtain rel inc where
    "[Write ''for (i = '', Write ''10'', Write ''; i >= 1; i -= 1)'', OpenScope]
       = [Write (''for ('' @ ''i'' @ '' = ''), Write (e_code (intLiteral 10)),
          Write (''; '' @ ''i'' @ rel @ e_code (intLiteral 1) @ ''; '' @ inc @ '')''), OpenScope]"
    and "rel = '' >= '' \<and> inc = ''i'' @ '' -= '' @ toString_num expo0 (- cvalue (IntConst (- 1)))
         \<and> (isSafeInteger (cvalue (IntConst (- 1))) \<longrightarrow>
              intOfText (toString_num expo0 (- cvalue (IntConst (- 1))))
                = Some (- cvalue (IntConst (- 1))))"
    by (auto simp: intLiteral_def makeExpression_def)
  then show ?thesis using h
    by (simp add: intLiteral_def makeExpression_def decimal_examples toString_num_safe small_safe)
qed

section \<open>Properties of guarded casts\<close>

lemma extends_base_iff:
  "extends t f \<longleftrightarrow> (\<exists>b. rec_base t = Some b \<and> (b = f \<or> extends b f))"
  by (auto intro: extends.intros elim: extends.cases)

text \<open>The walk finds the source exactly when it starts at the source or at an extension of it.\<close>

lemma baseChainFind_iff:
  "baseChainFind b f \<noteq> None \<longleftrightarrow> (\<exists>t. b = Some t \<and> (t = f \<or> extends t f))"
proof (induction b f rule: baseChainFind.induct)
  case (1 fromType)
  show ?case by simp
next
  case (2 i n c b fs sc fromType)
  show ?case
  proof (cases "RecordT i n c b fs sc = fromType")
    case True
    show ?thesis unfolding True [symmetric] by simp
  next
    case False
    with 2 have "baseChainFind (Some (RecordT i n c b fs sc)) fromType \<noteq> None
        \<longleftrightarrow> (\<exists>t. b = Some t \<and> (t = fromType \<or> extends t fromType))"
      by simp
    also have "\<dots> \<longleftrightarrow> extends (RecordT i n c b fs sc) fromType"
      by (subst (2) extends_base_iff) simp
    finally show ?thesis using False by simp
  qed
qed

lemma checkExtension_iff:
  "checkExtension msg tr fr = Inr () \<longleftrightarrow> extends tr fr"
  "\<not> extends tr fr \<Longrightarrow> checkExtension msg tr fr = Inl (InvalidCast_NotAnExtension msg tr fr)"
proof -
  have "baseChainFind (recordBase tr) fr \<noteq> None \<longleftrightarrow> extends tr fr"
    unfolding baseChainFind_iff recordBase_def by (subst (2) extends_base_iff) simp
  then show "checkExtension msg tr fr = Inr () \<longleftrightarrow> extends tr fr"
    and "\<not> extends tr fr \<Longrightarrow> checkExtension msg tr fr = Inl (InvalidCast_NotAnExtension msg tr fr)"
    by (auto simp: checkExtension_def split: option.splits)
qed

lemma checkTypeCast_iff:
  "checkTypeCast env fi ft tt msg = Inr () \<longleftrightarrow> castAllowed env fi ft tt"
proof (cases ft)
  case (Record fr)
  then show ?thesis
    by (cases tt; cases fi) (auto simp: castAllowed_def checkExtension_iff(1))
next
  case (Pointer n h)
  then show ?thesis
    by (cases tt) (auto simp: castAllowed_def checkExtension_iff(1) pointerBase_def)
qed (auto simp: castAllowed_def)

lemma castAllowed_castCode:
  "castAllowed env fi ft tt \<Longrightarrow> \<exists>c. castCode env qualify tt = Inr c"
  by (auto simp: castAllowed_def)

lemma extends_D_A: "extends recD recA"
  by (rule extends.step [where b = recB]) (auto simp: recD_def recB_def intro: extends.direct)

lemma not_extends_C_A: "\<not> extends recC recA"
  by (subst extends_base_iff) (simp add: recC_def)

text \<open>
  C2: \<open>checkTypeCast\<close> accepts a cast exactly when the source is a by-reference record
  variable and the target a record, or both are pointers, and the target record is an
  extension of the source record (found on the target's base chain); the guarded cast
  of a designator and the type test IS succeed under the same condition. When the base
  chain ends without reaching the source, the error is "is not an extension of" with
  the target and the source; a record variable that is not a reference fails with "a
  value variable cannot be used".
\<close>

theorem guarded_cast_valid_iff:
  "(checkTypeCast env fromInfo fromType toType msg = Inr ()
      \<longleftrightarrow> castAllowed env fromInfo fromType toType)
   \<and> ((\<exists>st'. Designator_handleTypeCast env qualify typeGuard st toType = Inr st')
      \<longleftrightarrow> castAllowed env (Some (ds_info st)) (ds_currentType st) toType)
   \<and> ((\<exists>res. RelationOps_is env qualify toType left = Inr res)
      \<longleftrightarrow> castAllowed env (map_option d_info (e_designator left)) (e_type left) toType)
   \<and> (\<forall>fr tr i. fromType = Record fr \<and> toType = Record tr \<and> fromInfo = Some i \<and> isReference i
        \<and> \<not> extends tr fr
        \<longrightarrow> checkTypeCast env fromInfo fromType toType msg
              = Inl (InvalidCast_NotAnExtension msg tr fr))
   \<and> (\<forall>n h n' h'. fromType = Pointer n h \<and> toType = Pointer n' h' \<and> \<not> extends (env h') (env h)
        \<longrightarrow> checkTypeCast env fromInfo fromType toType msg
              = Inl (InvalidCast_NotAnExtension msg (env h') (env h)))
   \<and> (\<forall>fr i. fromType = Record fr \<and> fromInfo = Some i \<and> \<not> isReference i
        \<longrightarrow> checkTypeCast env fromInfo fromType toType msg = Inl (InvalidCast_ValueVariable msg))"
proof -
  have a: "checkTypeCast env fromInfo fromType toType msg = Inr ()
      \<longleftrightarrow> castAllowed env fromInfo fromType toType"
    by (rule checkTypeCast_iff)
  have b: "(\<exists>st'. Designator_handleTypeCast env qualify typeGuard st toType = Inr st')
      \<longleftrightarrow> castAllowed env (Some (ds_info st)) (ds_currentType st) toType"
    using checkTypeCast_iff [of env "Some (ds_info st)" "ds_currentType st" toType "''type cast''"]
      castAllowed_castCode [of env "Some (ds_info st)" "ds_currentType st" toType qualify]
    by (auto simp: Designator_handleTypeCast_def split: sum.splits)
  have c: "(\<exists>res. RelationOps_is env qualify toType left = Inr res)
      \<longleftrightarrow> castAllowed env (map_option d_info (e_designator left)) (e_type left) toType"
    using checkTypeCast_iff [of env "map_option d_info (e_designator left)" "e_type left" toType
        "''type test''"]
      castAllowed_castCode [of env "map_option d_info (e_designator left)" "e_type left" toType
        qualify]
    by (auto simp: RelationOps_is_def split: sum.splits)
  have d: "\<forall>fr tr i. fromType = Record fr \<and> toType = Record tr \<and> fromInfo = Some i
        \<and> isReference i \<and> \<not> extends tr fr
        \<longrightarrow> checkTypeCast env fromInfo fromType toType msg
              = Inl (InvalidCast_NotAnExtension msg tr fr)"
    by (auto simp: checkExtension_iff(2))
  have e: "\<forall>n h n' h'. fromType = Pointer n h \<and> toType = Pointer n' h'
        \<and> \<not> extends (env h') (env h)
        \<longrightarrow> checkTypeCast env fromInfo fromType toType msg
              = Inl (InvalidCast_NotAnExtension msg (env h') (env h))"
    by (auto simp: checkExtension_iff(2) pointerBase_def)
  have f: "\<forall>fr i. fromType = Record fr \<and> fromInfo = Some i \<and> \<not> isReference i
        \<longrightarrow> checkTypeCast env fromInfo fromType toType msg = Inl (InvalidCast_ValueVariable msg)"
    by auto
  from a b c d e f show ?thesis by blast
qed

text \<open>
  A by-reference variable of type A is cast to D, which extends A through B; the cast
  to the unrelated C is refused, and so is the cast of a value variable.
\<close>

theorem guarded_cast_valid_iff_witness:
  "checkTypeCast tenv0 (Some (Variable (Record recA) False True)) (Record recA) (Record recD)
      ''type cast'' = Inr ()
   \<and> checkTypeCast tenv0 (Some (Variable (Record recA) False True)) (Record recA) (Record recC)
      ''type cast'' = Inl (InvalidCast_NotAnExtension ''type cast'' recC recA)
   \<and> checkTypeCast tenv0 (Some (Variable (Record recA) False False)) (Record recA) (Record recD)
      ''type cast'' = Inl (InvalidCast_ValueVariable ''type cast'')"
proof -
  have allowed: "castAllowed tenv0 (Some (Variable (Record recA) False True)) (Record recA)
      (Record recD)"
    unfolding castAllowed_def using extends_D_A by fastforce
  have ok: "checkTypeCast tenv0 (Some (Variable (Record recA) False True)) (Record recA)
      (Record recD) ''type cast'' = Inr ()"
    using guarded_cast_valid_iff [of tenv0 "Some (Variable (Record recA) False True)"
        "Record recA" "Record recD" "''type cast''"] allowed
    by blast
  have refused: "checkTypeCast tenv0 (Some (Variable (Record recA) False True)) (Record recA)
      (Record recC) ''type cast'' = Inl (InvalidCast_NotAnExtension ''type cast'' recC recA)"
    using guarded_cast_valid_iff [of tenv0 "Some (Variable (Record recA) False True)"
        "Record recA" "Record recC" "''type cast''"] not_extends_C_A
    by simp
  have val: "checkTypeCast tenv0 (Some (Variable (Record recA) False False)) (Record recA)
      (Record recD) ''type cast'' = Inl (InvalidCast_ValueVariable ''type cast'')"
    using guarded_cast_valid_iff [of tenv0 "Some (Variable (Record recA) False False)"
        "Record recA" "Record recD" "''type cast''"]
    by simp
  from ok refused val show ?thesis by blast
qed

section \<open>Properties of index steps\<close>

lemma handleIndexExpression_out_of_bounds:
  assumes "ds_indexExpression st = Some e" and "isInt (e_type e)"
    and "e_constValue e = Some c" and "checkIndex (cvalue c) = None"
    and "indexLength (ds_currentType st) = Some n" and "n \<le> cvalue c"
    and "isStaticArray (ds_currentType st) \<or> (isStringLiteral (ds_currentType st) \<and> n \<noteq> 0)"
  shows "handleIndexExpression checkIndex deref st = Inl (IndexOutOfBounds (n - 1) (cvalue c))"
proof -
  have arr: "isStaticArray t \<Longrightarrow> isArray t" for t by (cases t) auto
  obtain index where ix: "indexSequence deref st e (deref e) = Inr index"
    and len: "ix_length index = Some n"
    using assms(5,7) by (auto simp: indexSequence_def Let_def dest: arr)
  have "checkIndexValue checkIndex st index (Some c) = Inl (IndexOutOfBounds (n - 1) (cvalue c))"
    using assms(4,6,7) len by (auto simp: checkIndexValue_def Let_def)
  then show ?thesis
    using assms(1,2,3) ix by (simp add: handleIndexExpression_def checkIndexType_def)
qed

lemma handleIndexExpression_no_const:
  assumes "ds_indexExpression st = Some e" and "e_constValue e = None"
  shows "handleIndexExpression checkIndex deref st \<noteq> Inl (IndexOutOfBounds a b)"
  using assms
  by (auto simp: handleIndexExpression_def checkIndexType_def indexSequence_def checkIndexValue_def
      Let_def split: sum.splits if_splits)

lemma handleLiteral_index_error:
  assumes "s = '']'' \<or> s = '',''" and "handleIndexExpression checkIndex deref st = Inl err"
  shows "Designator_handleLiteral env nonExported checkIndex deref st s = Inl err"
  using assms by (auto simp: Designator_handleLiteral_def)

lemma handleLiteral_no_const:
  assumes "s = '']'' \<or> s = '',''" and "ds_indexExpression st = Some e" and "e_constValue e = None"
  shows "Designator_handleLiteral env nonExported checkIndex deref st s \<noteq> Inl (IndexOutOfBounds a b)"
  using assms handleIndexExpression_no_const [OF assms(2,3), of checkIndex deref a b]
  by (auto simp: Designator_handleLiteral_def split: sum.splits)

text \<open>
  C3, as the code has it: indexing the empty string constant with the constant \<open>0\<close>,
  which is not below its length \<open>0\<close>, fails with "cannot index empty string", not with
  the index-out-of-bounds error.
\<close>

theorem empty_string_index:
  "Designator_handleLiteral tenv0 (\<lambda>r. False) checkIndex0 e_code emptyStringIndexed '']''
     = Inl CannotIndexEmptyString
   \<and> Designator_handleLiteral tenv0 (\<lambda>r. False) checkIndex0 e_code emptyStringIndexed '']''
     \<noteq> Inl (IndexOutOfBounds (int (length '''') - 1) 0)"
  by (simp add: Designator_handleLiteral_def handleIndexExpression_def checkIndexType_def
      indexSequence_def emptyStringIndexed_def intLiteral_def makeExpression_def isInt_def)

text \<open>
  C3, amended: in an index step with an integer index expression on a designator whose
  current type is a static array of length N or a non-empty string of length N, a
  compile-time constant index v with v >= N (that \<open>Code.checkIndex\<close> accepts) fails
  with the index-out-of-bounds error naming the maximum index N - 1 and v; an index
  step on the empty string fails with "cannot index empty string"; and an index
  expression without a compile-time constant never fails with the index-out-of-bounds
  error.
\<close>

theorem constant_index_bounds:
  assumes "s = '']'' \<or> s = '',''" and "ds_indexExpression st = Some e" and "isInt (e_type e)"
  shows "(\<forall>ini el n c. ds_currentType st = StaticArray ini el n \<and> e_constValue e = Some c
             \<and> n \<le> cvalue c \<and> checkIndex (cvalue c) = None
           \<longrightarrow> Designator_handleLiteral env nonExported checkIndex deref st s
                 = Inl (IndexOutOfBounds (n - 1) (cvalue c)))
       \<and> (\<forall>str c. ds_currentType st = String str \<and> str \<noteq> [] \<and> e_constValue e = Some c
             \<and> int (length str) \<le> cvalue c \<and> checkIndex (cvalue c) = None
           \<longrightarrow> Designator_handleLiteral env nonExported checkIndex deref st s
                 = Inl (IndexOutOfBounds (int (length str) - 1) (cvalue c)))
       \<and> (ds_currentType st = String []
           \<longrightarrow> Designator_handleLiteral env nonExported checkIndex deref st s
                 = Inl CannotIndexEmptyString)
       \<and> (e_constValue e = None
           \<longrightarrow> (\<forall>a b. Designator_handleLiteral env nonExported checkIndex deref st s
                        \<noteq> Inl (IndexOutOfBounds a b)))"
proof -
  have arr: "\<forall>ini el n c. ds_currentType st = StaticArray ini el n \<and> e_constValue e = Some c
             \<and> n \<le> cvalue c \<and> checkIndex (cvalue c) = None
           \<longrightarrow> Designator_handleLiteral env nonExported checkIndex deref st s
                 = Inl (IndexOutOfBounds (n - 1) (cvalue c))"
    using handleIndexExpression_out_of_bounds [OF assms(2,3)] handleLiteral_index_error [OF assms(1)]
    by fastforce
  have str: "\<forall>str c. ds_currentType st = String str \<and> str \<noteq> [] \<and> e_constValue e = Some c
             \<and> int (length str) \<le> cvalue c \<and> checkIndex (cvalue c) = None
           \<longrightarrow> Designator_handleLiteral env nonExported checkIndex deref st s
                 = Inl (IndexOutOfBounds (int (length str) - 1) (cvalue c))"
    using handleIndexExpression_out_of_bounds [OF assms(2,3)] handleLiteral_index_error [OF assms(1)]
    by fastforce
  have empty: "ds_currentType st = String []
           \<longrightarrow> Designator_handleLiteral env nonExported checkIndex deref st s
                 = Inl CannotIndexEmptyString"
    using assms
    by (auto intro!: handleLiteral_index_error
        simp: handleIndexExpression_def checkIndexType_def indexSequence_def)
  have noc: "e_constValue e = None
           \<longrightarrow> (\<forall>a b. Designator_handleLiteral env nonExported checkIndex deref st s
                        \<noteq> Inl (IndexOutOfBounds a b))"
    using handleLiteral_no_const [OF assms(1,2)] by blast
  from arr str empty noc show ?thesis by blast
qed

theorem constant_index_bounds_witness:
  "Designator_handleLiteral tenv0 (\<lambda>r. False) checkIndex0 e_code (arrayIndexed (intLiteral 3)) '']''
     = Inl (IndexOutOfBounds 2 3)"
  using constant_index_bounds [of "'']''" "arrayIndexed (intLiteral 3)" "intLiteral 3"
          checkIndex0 tenv0 "\<lambda>r. False" e_code]
  by (simp add: arrayIndexed_def intLiteral_def makeExpression_def isInt_def checkIndex0_def)

section \<open>Properties of the reference code of a designator\<close>

lemma index_step_deref:
  assumes "Designator_handleLiteral env nonExported checkIndex deref st ''['' = Inr st1"
    and "Designator_handleLiteral env nonExported checkIndex deref
           (Designator_handleExpression st1 e) '']'' = Inr st2"
  shows "ds_derefCode st2 = Some (ds_code st) \<and> ds_propCode st2 = Some (deref e)
         \<and> \<not> isReference (ds_info st2)"
proof -
  from assms(1) have st1: "st1 = st\<lparr>ds_derefCode := Some (ds_code st), ds_code := []\<rparr>"
    by (auto simp: Designator_handleLiteral_def)
  from assms(2) show ?thesis
    unfolding st1
    by (auto simp: Designator_handleLiteral_def Designator_handleExpression_def
        handleIndexExpression_def indexSequence_def advance_def Let_def
        split: sum.splits if_splits)
qed

text \<open>
  C5, as the code has it: for the INTEGER variable \<open>x\<close> of a procedure, reached
  directly and not by reference, the reference code is not \<open>x\<close> itself: it is an
  object with a setter and a getter over \<open>x\<close>, a mutable cell.
\<close>

theorem direct_scalar_local_gets_cell:
  "makeRefCode scalar0 makeRef0 localX ''x''
     = ''{set: function($v){x = $v;}, get: function(){return x;}}''"
  by (simp add: makeRefCode_def scalar0_def localX_def truthy_def)

text \<open>
  C5, amended: the reference code of a designator is its code unchanged when its type
  is not scalar or its info is already a reference. For a scalar that is not a
  reference a cell is always built: through the runtime library's reference builder
  over the recorded object and property when the code of an indexed object has been
  recorded (so for an array element \<open>a[i]\<close> it is \<open>makeRef(a, i)\<close>), and as an inline
  object with a setter and a getter over the variable otherwise, as for a variable
  reached directly.
\<close>

theorem refCode_cases:
  "(\<not> scalar (ds_currentType st) \<or> isReference (ds_info st)
      \<longrightarrow> makeRefCode scalar makeRef st code = code)
   \<and> (scalar (ds_currentType st) \<and> \<not> isReference (ds_info st) \<and> truthy (ds_derefCode st)
      \<longrightarrow> makeRefCode scalar makeRef st code
            = makeRef (js_str (ds_derefCode st)) (js_str (ds_propCode st)))
   \<and> (scalar (ds_currentType st) \<and> \<not> isReference (ds_info st) \<and> \<not> truthy (ds_derefCode st)
      \<longrightarrow> makeRefCode scalar makeRef st code
            = ''{set: function($v){'' @ code @ '' = $v;}, get: function(){return '' @ code @ '';}}''
          \<and> makeRefCode scalar makeRef st code \<noteq> code)
   \<and> (\<forall>st0 st1 e. Designator_handleLiteral env nonExported checkIndex deref st0 ''['' = Inr st1
          \<and> Designator_handleLiteral env nonExported checkIndex deref
               (Designator_handleExpression st1 e) '']'' = Inr st
          \<and> ds_code st0 \<noteq> [] \<and> scalar (ds_currentType st)
      \<longrightarrow> makeRefCode scalar makeRef st code = makeRef (ds_code st0) (deref e))"
proof -
  have a: "\<not> scalar (ds_currentType st) \<or> isReference (ds_info st)
      \<longrightarrow> makeRefCode scalar makeRef st code = code"
    by (auto simp: makeRefCode_def)
  have b: "scalar (ds_currentType st) \<and> \<not> isReference (ds_info st) \<and> truthy (ds_derefCode st)
      \<longrightarrow> makeRefCode scalar makeRef st code
            = makeRef (js_str (ds_derefCode st)) (js_str (ds_propCode st))"
    by (simp add: makeRefCode_def)
  have c: "scalar (ds_currentType st) \<and> \<not> isReference (ds_info st) \<and> \<not> truthy (ds_derefCode st)
      \<longrightarrow> makeRefCode scalar makeRef st code
            = ''{set: function($v){'' @ code @ '' = $v;}, get: function(){return '' @ code @ '';}}''
          \<and> makeRefCode scalar makeRef st code \<noteq> code"
  proof (intro impI conjI)
    assume h: "scalar (ds_currentType st) \<and> \<not> isReference (ds_info st) \<and> \<not> truthy (ds_derefCode st)"
    then show eq: "makeRefCode scalar makeRef st code
            = ''{set: function($v){'' @ code @ '' = $v;}, get: function(){return '' @ code @ '';}}''"
      by (simp add: makeRefCode_def)
    have "length (makeRefCode scalar makeRef st code) \<noteq> length code"
      unfolding eq by simp
    then show "makeRefCode scalar makeRef st code \<noteq> code" by auto
  qed
  have d: "\<forall>st0 st1 e. Designator_handleLiteral env nonExported checkIndex deref st0 ''['' = Inr st1
          \<and> Designator_handleLiteral env nonExported checkIndex deref
               (Designator_handleExpression st1 e) '']'' = Inr st
          \<and> ds_code st0 \<noteq> [] \<and> scalar (ds_currentType st)
      \<longrightarrow> makeRefCode scalar makeRef st code = makeRef (ds_code st0) (deref e)"
  proof (intro allI impI)
    fix st0 st1 e
    assume h: "Designator_handleLiteral env nonExported checkIndex deref st0 ''['' = Inr st1
          \<and> Designator_handleLiteral env nonExported checkIndex deref
               (Designator_handleExpression st1 e) '']'' = Inr st
          \<and> ds_code st0 \<noteq> [] \<and> scalar (ds_currentType st)"
    then have "ds_derefCode st = Some (ds_code st0) \<and> ds_propCode st = Some (deref e)
         \<and> \<not> isReference (ds_info st)"
      using index_step_deref by blast
    with h show "makeRefCode scalar makeRef st code = makeRef (ds_code st0) (deref e)"
      by (simp add: makeRefCode_def truthy_def js_str_def)
  qed
  from a b c d show ?thesis by blast
qed

theorem refCode_cases_witness:
  "makeRefCode scalar0 makeRef0
      (localX\<lparr>ds_info := Variable (Basic T_integer) False True\<rparr>) ''x'' = ''x''
   \<and> makeRefCode scalar0 makeRef0
      (localX\<lparr>ds_code := ''a[2]'', ds_derefCode := Some ''a'', ds_propCode := Some ''2''\<rparr>) ''a[2]''
       = ''RTL$.makeRef(a, 2)''"
  using refCode_cases [of scalar0 "localX\<lparr>ds_info := Variable (Basic T_integer) False True\<rparr>"
          makeRef0 "''x''" tenv0 "\<lambda>r. False" checkIndex0 e_code]
    refCode_cases [of scalar0
          "localX\<lparr>ds_code := ''a[2]'', ds_derefCode := Some ''a'', ds_propCode := Some ''2''\<rparr>"
          makeRef0 "''a[2]''" tenv0 "\<lambda>r. False" checkIndex0 e_code]
  by (simp add: localX_def scalar0_def truthy_def js_str_def makeRef0_def)

section \<open>Properties of relational operators\<close>

lemma set_relationType:
  assumes "areTypesMatch cr (Basic T_set) (Basic T_set)" and "literal \<noteq> ''IS''" and "literal \<noteq> ''IN''"
  shows "relationType cr (Basic T_set) (Basic T_set) literal = Inr (Some (Basic T_set))"
  using assms
  by (simp add: relationType_def coalesceType_def coalescePointers_def checkTypeMatch_def)

lemma set_ops:
  "RelationOps_eq (Basic T_set) = Some equalSet"
  "RelationOps_notEq (Basic T_set) = Some notEqualSet"
  "RelationOps_less (Basic T_set) = None"
  "RelationOps_greater (Basic T_set) = None"
  "RelationOps_lessEq (Basic T_set) = Some setInclL"
  "RelationOps_greaterEq (Basic T_set) = Some setInclR"
  by (simp_all add: RelationOps_eq_def RelationOps_notEq_def RelationOps_less_def
      RelationOps_greater_def RelationOps_lessEq_def RelationOps_greaterEq_def
      useIntEqOp_def useIntOrderOp_def isInt_def)

lemma no_order_ops:
  assumes "t = Basic T_bool \<or> isPointer t \<or> isProcedure t"
  shows "RelationOps_less t = None" "RelationOps_greater t = None"
    "RelationOps_lessEq t = None" "RelationOps_greaterEq t = None"
  using assms
  by (cases t; auto simp: RelationOps_less_def RelationOps_greater_def RelationOps_lessEq_def
      RelationOps_greaterEq_def useIntOrderOp_def isInt_def)+

lemma relationType_ordering:
  assumes "literal \<in> {''<'', ''>'', ''<='', ''>=''}"
  shows "relationType cr l r literal = map_sum id Some (coalesceType cr l r)"
  using assms by (auto simp: relationType_def)

text \<open>
  C6: for two SET operands (which match each other), \<open><\<close> and \<open>>\<close> fail with the
  operator type mismatch naming "numeric type or CHAR or character array", \<open><=\<close> and
  \<open>>=\<close> resolve to the set inclusions, \<open>=\<close> and \<open>#\<close> to the set equalities. For
  operands that coalesce to BOOLEAN, a pointer or a procedure type, each of the four
  ordering operators fails with the operator type mismatch; with such a left operand
  no ordering operator ever resolves.
\<close>

theorem set_relations_resolve:
  "(areTypesMatch cr (Basic T_set) (Basic T_set) \<longrightarrow>
      relationOp cr (Basic T_set) (Basic T_set) ''<''
        = Inl (OperatorTypeMismatch ''<'' ''numeric type or CHAR or character array'' (Some (Basic T_set)))
    \<and> relationOp cr (Basic T_set) (Basic T_set) ''>''
        = Inl (OperatorTypeMismatch ''>'' ''numeric type or CHAR or character array'' (Some (Basic T_set)))
    \<and> relationOp cr (Basic T_set) (Basic T_set) ''<='' = Inr (Some setInclL)
    \<and> relationOp cr (Basic T_set) (Basic T_set) ''>='' = Inr (Some setInclR)
    \<and> relationOp cr (Basic T_set) (Basic T_set) ''='' = Inr (Some equalSet)
    \<and> relationOp cr (Basic T_set) (Basic T_set) ''#'' = Inr (Some notEqualSet))
   \<and> (\<forall>literal l r t. literal \<in> {''<'', ''>'', ''<='', ''>=''}
          \<and> coalesceType cr l r = Inr t \<and> (t = Basic T_bool \<or> isPointer t \<or> isProcedure t)
        \<longrightarrow> relationOp cr l r literal
              = Inl (OperatorTypeMismatch literal
                      (if literal = ''<'' \<or> literal = ''>''
                       then ''numeric type or CHAR or character array''
                       else ''numeric type or SET or CHAR or character array'') (Some t)))
   \<and> (\<forall>literal l r. literal \<in> {''<'', ''>'', ''<='', ''>=''}
          \<and> (l = Basic T_bool \<or> isProcedure l
              \<or> (isPointer l \<and> (\<forall>t. coalescePointers cr l r = Some t \<longrightarrow> isPointer t)))
        \<longrightarrow> (\<exists>err. relationOp cr l r literal = Inl err))"
proof -
  have a: "areTypesMatch cr (Basic T_set) (Basic T_set) \<longrightarrow>
      relationOp cr (Basic T_set) (Basic T_set) ''<''
        = Inl (OperatorTypeMismatch ''<'' ''numeric type or CHAR or character array'' (Some (Basic T_set)))
    \<and> relationOp cr (Basic T_set) (Basic T_set) ''>''
        = Inl (OperatorTypeMismatch ''>'' ''numeric type or CHAR or character array'' (Some (Basic T_set)))
    \<and> relationOp cr (Basic T_set) (Basic T_set) ''<='' = Inr (Some setInclL)
    \<and> relationOp cr (Basic T_set) (Basic T_set) ''>='' = Inr (Some setInclR)
    \<and> relationOp cr (Basic T_set) (Basic T_set) ''='' = Inr (Some equalSet)
    \<and> relationOp cr (Basic T_set) (Basic T_set) ''#'' = Inr (Some notEqualSet)"
    by (simp add: relationOp_def set_relationType relationSwitch_def set_ops strongRelExpect_def)
  have b: "\<forall>literal l r t. literal \<in> {''<'', ''>'', ''<='', ''>=''}
          \<and> coalesceType cr l r = Inr t \<and> (t = Basic T_bool \<or> isPointer t \<or> isProcedure t)
        \<longrightarrow> relationOp cr l r literal
              = Inl (OperatorTypeMismatch literal
                      (if literal = ''<'' \<or> literal = ''>''
                       then ''numeric type or CHAR or character array''
                       else ''numeric type or SET or CHAR or character array'') (Some t))"
  proof (intro allI impI)
    fix literal l r t
    assume h: "literal \<in> {''<'', ''>'', ''<='', ''>=''}
          \<and> coalesceType cr l r = Inr t \<and> (t = Basic T_bool \<or> isPointer t \<or> isProcedure t)"
    then have rt: "relationType cr l r literal = Inr (Some t)"
      by (simp add: relationType_ordering)
    from h have no: "RelationOps_less t = None" "RelationOps_greater t = None"
      "RelationOps_lessEq t = None" "RelationOps_greaterEq t = None"
      by (simp_all add: no_order_ops)
    from h have lits: "literal = ''<'' \<or> literal = ''>'' \<or> literal = ''<='' \<or> literal = ''>=''" by simp
    show "relationOp cr l r literal
              = Inl (OperatorTypeMismatch literal
                      (if literal = ''<'' \<or> literal = ''>''
                       then ''numeric type or CHAR or character array''
                       else ''numeric type or SET or CHAR or character array'') (Some t))"
      using lits rt no
      by (auto simp: relationOp_def relationSwitch_def strongRelExpect_def relExpect_def)
  qed
  have c: "\<forall>literal l r. literal \<in> {''<'', ''>'', ''<='', ''>=''}
          \<and> (l = Basic T_bool \<or> isProcedure l
              \<or> (isPointer l \<and> (\<forall>t. coalescePointers cr l r = Some t \<longrightarrow> isPointer t)))
        \<longrightarrow> (\<exists>err. relationOp cr l r literal = Inl err)"
  proof (intro allI impI)
    fix literal l r
    assume h: "literal \<in> {''<'', ''>'', ''<='', ''>=''}
          \<and> (l = Basic T_bool \<or> isProcedure l
              \<or> (isPointer l \<and> (\<forall>t. coalescePointers cr l r = Some t \<longrightarrow> isPointer t)))"
    show "\<exists>err. relationOp cr l r literal = Inl err"
    proof (cases "coalesceType cr l r")
      case (Inl err)
      with h show ?thesis by (simp add: relationOp_def relationType_ordering)
    next
      case (Inr t)
      have "t = Basic T_bool \<or> isPointer t \<or> isProcedure t"
      proof (cases "coalescePointers cr l r")
        case None
        with Inr have "t = l" by (auto simp: coalesceType_def split: if_splits sum.splits)
        with h None show ?thesis by auto
      next
        case (Some u)
        with Inr have "t = u" by (simp add: coalesceType_def)
        moreover from Some have "isPointer l"
          by (auto simp: coalescePointers_def split: if_splits)
        ultimately show ?thesis using h Some by (cases l) auto
      qed
      with b h Inr show ?thesis by blast
    qed
  qed
  from a b c show ?thesis by blast
qed

theorem set_relations_resolve_witness:
  "relationOp castRules0 (Basic T_set) (Basic T_set) ''<''
     = Inl (OperatorTypeMismatch ''<'' ''numeric type or CHAR or character array'' (Some (Basic T_set)))
   \<and> relationOp castRules0 (Basic T_set) (Basic T_set) ''>='' = Inr (Some setInclR)
   \<and> relationOp castRules0 (Basic T_bool) (Basic T_bool) ''<=''
     = Inl (OperatorTypeMismatch ''<='' ''numeric type or SET or CHAR or character array'' (Some (Basic T_bool)))"
proof -
  have m: "areTypesMatch castRules0 (Basic T_set) (Basic T_set)"
    by (simp add: castRules0_def)
  have c: "coalesceType castRules0 (Basic T_bool) (Basic T_bool) = Inr (Basic T_bool)"
    by (simp add: coalesceType_def coalescePointers_def checkTypeMatch_def castRules0_def)
  note t = set_relations_resolve [of castRules0]
  from t m have "relationOp castRules0 (Basic T_set) (Basic T_set) ''<''
     = Inl (OperatorTypeMismatch ''<'' ''numeric type or CHAR or character array'' (Some (Basic T_set)))"
    and "relationOp castRules0 (Basic T_set) (Basic T_set) ''>='' = Inr (Some setInclR)"
    by blast+
  moreover from t c have "relationOp castRules0 (Basic T_bool) (Basic T_bool) ''<=''
     = Inl (OperatorTypeMismatch ''<='' 
            (if ''<='' = ''<'' \<or> ''<='' = ''>''
                       then ''numeric type or CHAR or character array''
                       else ''numeric type or SET or CHAR or character array'') (Some (Basic T_bool)))"
    by (elim conjE allE [where x = "''<=''"] allE [where x = "Basic T_bool"]) simp
  ultimately show ?thesis by simp
qed

section \<open>Properties of set literals\<close>

text \<open>
  What \<open>SetElement\<close> hands to the set literal: one expression gives an element, two
  give a range.
\<close>

lemma SetElement_single:
  "SetElement_member (Element e)
     = \<lparr>el_from = Some (e_code e), el_fromValue = e_constValue e, el_to = None,
        el_toValue = None\<rparr>"
  by (simp add: SetElement_member_def SetElement_endParse_def SetElement_expression_def
      SetElement_init_def SetElement_handleExpression_def truthy_def Let_def)

lemma SetElement_range:
  assumes "e_code e1 \<noteq> []"
  shows "SetElement_member (Range e1 e2)
     = \<lparr>el_from = Some (e_code e1), el_fromValue = e_constValue e1, el_to = Some (e_code e2),
        el_toValue = e_constValue e2\<rparr>"
  using assms
  by (simp add: SetElement_member_def SetElement_endParse_def SetElement_expression_def
      SetElement_init_def SetElement_handleExpression_def truthy_def Let_def)















lemma shl1_examples: "shl1 1 = 2" "shl1 3 = 8" "shl1 4 = 16" "shl1 5 = 32"
  by (simp_all add: shl1_def)

lemma int32_examples: "int32 58 = 58" "int32 2 = 2"
  by (simp_all add: int32_def)

lemma upto_3_5: "[3..5] = [3, 4, 5::int]"
  by (simp add: upto.simps)

lemma safe_3_5: "isSafeInteger 3" "isSafeInteger 5"
  by (simp_all add: isSafeInteger_def)

text \<open>\<open>{1, 3..5}\<close> folds to 58, and \<open>{1, x}\<close> to a call of the set builder and the bit of 1.\<close>

lemma Set_literal_const_example:
  "Set_literal expo0 makeSet0 [Element (intLiteral 1), Range (intLiteral 3) (intLiteral 5)]
     = Some (HandleConst (Basic T_set) (SetConst 58) ''58'')"
  by (simp add: Set_literal_def Set_endParse_def Set_handleElement_def Set_init_def
      SetElement_single SetElement_range intLiteral_def makeExpression_def truthy_def
      decimal_examples upto_3_5 shl1_examples int32_examples toString_num_safe small_safe
      safe_3_5)


lemma Set_literal_mixed_example:
  "Set_literal expo0 makeSet0 [Element (intLiteral 1), Element (intVariable ''x'')]
     = Some (HandleFactor (makeExpression ''RTL$.makeSet(x) | 2'' (Basic T_set) None None))"
  by (simp add: Set_literal_def Set_endParse_def Set_handleElement_def Set_init_def
      SetElement_single intLiteral_def intVariable_def makeExpression_def truthy_def
      decimal_examples js_str_def shl1_examples int32_examples makeSet0_def Let_def
      toString_num_safe small_safe)


section \<open>Properties of type sections\<close>

lemma noDeclarationMessage_example:
  "noDeclarationMessage [''Node'', ''Leaf'']
     = ''no declaration found for '' @ [CHR 0x27] @ ''Node'' @ [CHR 0x27] @ '', ''
        @ [CHR 0x27] @ ''Leaf'' @ [CHR 0x27]"
  by (simp add: noDeclarationMessage_def)

lemma event_unresolved:
  "set (unresolved (TypeSection_event sc ev))
     = (case ev of ForwardType n \<Rightarrow> insert n (set (unresolved sc))
        | DeclareType n t \<Rightarrow> set (unresolved sc) - {n})"
  by (cases ev)
     (auto simp: unresolved_def TypeSection_handleForwardTypeMsg_def addUnresolved_def
        TypeDeclaration_setType_def TypeDeclaration_handleIdentdef_def resolve_def)

lemma run_unresolved_sub:
  "set (unresolved (foldl TypeSection_event sc evs)) \<subseteq> set (unresolved sc) \<union> forwarded evs"
proof (induction evs arbitrary: sc)
  case Nil
  show ?case by simp
next
  case (Cons ev evs)
  have "set (unresolved (TypeSection_event sc ev)) \<subseteq> set (unresolved sc) \<union> forwarded [ev]"
    unfolding event_unresolved by (cases ev) (auto simp: forwarded_def)
  with Cons.IH [of "TypeSection_event sc ev"] show ?case
    by (auto simp: forwarded_def)
qed

lemma run_unresolved_sup:
  "(set (unresolved sc) \<union> forwarded evs) - declared evs
     \<subseteq> set (unresolved (foldl TypeSection_event sc evs))"
proof (induction evs arbitrary: sc)
  case Nil
  show ?case by (simp add: forwarded_def declared_def)
next
  case (Cons ev evs)
  have "(set (unresolved sc) \<union> forwarded (ev # evs)) - declared (ev # evs)
      \<subseteq> (set (unresolved (TypeSection_event sc ev)) \<union> forwarded evs) - declared evs"
    unfolding event_unresolved by (cases ev) (auto simp: forwarded_def declared_def)
  with Cons.IH [of "TypeSection_event sc ev"] show ?case by auto
qed

text \<open>
  C8: closing a type section whose scope has no pending forward-type marker succeeds;
  closing one with pending markers fails with the "no declaration found" error that
  lists every pending name; the symbols declared in the scope play no part. Over a run
  of the section: without forward references the closing succeeds, and when some name
  was referred to and never declared the closing fails and the error lists every such
  name.
\<close>

theorem type_section_close:
  "(unresolved sc = [] \<longrightarrow> TypeSection_endParse sc = Inr ())
   \<and> (unresolved sc \<noteq> [] \<longrightarrow> TypeSection_endParse sc = Inl (NoDeclarationFound (unresolved sc)))
   \<and> TypeSection_endParse (sc\<lparr>sc_symbols := syms\<rparr>) = TypeSection_endParse sc
   \<and> (unresolved sc = [] \<and> forwarded evs = {} \<longrightarrow> TypeSection_run sc evs = Inr ())
   \<and> (forwarded evs - declared evs \<noteq> {} \<longrightarrow>
        (\<exists>ns. TypeSection_run sc evs = Inl (NoDeclarationFound ns)
              \<and> forwarded evs - declared evs \<subseteq> set ns))"
proof -
  have a: "unresolved sc = [] \<longrightarrow> TypeSection_endParse sc = Inr ()"
    and b: "unresolved sc \<noteq> [] \<longrightarrow> TypeSection_endParse sc = Inl (NoDeclarationFound (unresolved sc))"
    and c: "TypeSection_endParse (sc\<lparr>sc_symbols := syms\<rparr>) = TypeSection_endParse sc"
    by (simp_all add: TypeSection_endParse_def unresolved_def)
  have d: "unresolved sc = [] \<and> forwarded evs = {} \<longrightarrow> TypeSection_run sc evs = Inr ()"
    using run_unresolved_sub [of sc evs]
    by (auto simp: TypeSection_run_def TypeSection_endParse_def)
  have e: "forwarded evs - declared evs \<noteq> {} \<longrightarrow>
        (\<exists>ns. TypeSection_run sc evs = Inl (NoDeclarationFound ns)
              \<and> forwarded evs - declared evs \<subseteq> set ns)"
  proof
    let ?u = "unresolved (foldl TypeSection_event sc evs)"
    assume ne: "forwarded evs - declared evs \<noteq> {}"
    have sub: "forwarded evs - declared evs \<subseteq> set ?u"
      using run_unresolved_sup [of sc evs] by auto
    with ne have "?u \<noteq> []" by auto
    then have "TypeSection_run sc evs = Inl (NoDeclarationFound ?u)"
      by (simp add: TypeSection_run_def TypeSection_endParse_def)
    with sub show "\<exists>ns. TypeSection_run sc evs = Inl (NoDeclarationFound ns)
              \<and> forwarded evs - declared evs \<subseteq> set ns"
      by blast
  qed
  from a b c d e show ?thesis by blast
qed

theorem type_section_close_witness:
  "TypeSection_run emptyScope
       [ForwardType ''Node'', DeclareType ''T'' (Pointer ''T'' 1), ForwardType ''Leaf'',
        DeclareType ''Node'' (Record recA)]
     = Inl (NoDeclarationFound [''Leaf''])
   \<and> TypeSection_run emptyScope [DeclareType ''T'' (Record recA)] = Inr ()"
proof -
  let ?evs = "[ForwardType ''Node'', DeclareType ''T'' (Pointer ''T'' 1), ForwardType ''Leaf'',
        DeclareType ''Node'' (Record recA)]"
  have run: "unresolved (foldl TypeSection_event emptyScope ?evs) = [''Leaf'']"
    by (simp add: emptyScope_def unresolved_def TypeSection_handleForwardTypeMsg_def
        addUnresolved_def TypeDeclaration_setType_def TypeDeclaration_handleIdentdef_def
        resolve_def)
  have "TypeSection_endParse (foldl TypeSection_event emptyScope ?evs)
          = Inl (NoDeclarationFound [''Leaf''])"
    using type_section_close [of "foldl TypeSection_event emptyScope ?evs"] run by simp
  moreover have "TypeSection_run emptyScope [DeclareType ''T'' (Record recA)] = Inr ()"
    using type_section_close [of emptyScope _ "[DeclareType ''T'' (Record recA)]"]
    by (simp add: emptyScope_def unresolved_def forwarded_def)
  ultimately show ?thesis by (simp add: TypeSection_run_def)
qed

section \<open>Properties of record constructors\<close>

lemma foldl_fieldInit:
  "foldl (\<lambda>result (f, fieldType).
              result @ ''this.'' @ mangleField f fieldType @ '' = '' @ initializer fieldType
                     @ '';'' @ [CHR 0x0A]) acc fs
     = acc @ concat (map (fieldInit initializer mangleField) fs)"
  by (induction fs arbitrary: acc) (auto simp: fieldInit_def)

text \<open>
  C4: the constructor of a record is \<open>function cons()\<close>, an opened block, one write
  and the closing of the block. The write is the call of the base constructor, present
  exactly when the record has a base, followed by one initialization statement for each
  of the record's own fields, in order, and for nothing else: fields of the base are
  left to the base constructor.
\<close>

theorem constructor_code:
  assumes "namedBase r"
  shows "generateConstructor qualify initializer mangleField r
       = [Write (''function '' @ rec_cons r @ ''()''),
          OpenScope,
          Write (baseCall qualify r @ concat (map (fieldInit initializer mangleField) (rec_ownFields r))),
          CloseScope []]
     \<and> (rec_base r = None \<longleftrightarrow> baseCall qualify r = [])"
proof -
  have fields: "generateFieldsInitializationCode initializer mangleField r
      = concat (map (fieldInit initializer mangleField) (rec_ownFields r))"
    by (simp only: generateFieldsInitializationCode_def recordOwnFields_def foldl_fieldInit
        append_Nil)
  have base: "generateBaseConstructorCallCode qualify r = baseCall qualify r"
    using assms
    by (auto simp: generateBaseConstructorCallCode_def qualifiedBaseConstructor_def
        recordBase_def recordScope_def typeName_def baseCall_def namedBase_def
        split: option.splits)
  have iff: "rec_base r = None \<longleftrightarrow> baseCall qualify r = []"
    by (auto simp: baseCall_def split: option.splits)
  from fields base iff show ?thesis
    by (simp add: generateConstructor_def)
qed

theorem constructor_code_witness:
  "generateConstructor qualify0 initializer0 mangleField0 recB
     = [Write ''function B()'', OpenScope,
        Write (''A.call(this);'' @ [CHR 0x0A] @ ''this.c = 0;'' @ [CHR 0x0A]), CloseScope []]
   \<and> generateConstructor qualify0 initializer0 mangleField0 recA
     = [Write ''function A()'', OpenScope,
        Write (''this.a = 0;'' @ [CHR 0x0A] @ ''this.b = false;'' @ [CHR 0x0A]), CloseScope []]"
proof -
  have nb: "namedBase recB" "namedBase recA"
    by (simp_all add: namedBase_def recB_def recA_def)
  show ?thesis
    using constructor_code [OF nb(1), of qualify0 initializer0 mangleField0]
      constructor_code [OF nb(2), of qualify0 initializer0 mangleField0]
    by (simp add: recB_def recA_def baseCall_def fieldInit_def qualify0_def initializer0_def
        mangleField0_def)
qed

section \<open>Properties of procedure references in terms\<close>

text \<open>
  C10: when the designator of a term denotes a procedure, a standard procedure fails
  with "cannot be referenced", a procedure found in a procedure's scope fails with
  "local procedure cannot be referenced", and any other procedure is handed on as an
  expression (which, as the first factor of a term, is accepted); so the designator is
  accepted only for a non-standard procedure that is not local to a procedure.
\<close>

theorem procedure_reference:
  assumes "d_info d = ProcedureId proc"
  shows "(procedureIsStd proc \<longrightarrow>
            Term_setDesignator cr opNot applyOp st d = Inl (StdProcCannotBeReferenced proc))
       \<and> (\<not> procedureIsStd proc \<and> isProcedureScope (d_scope d) \<longrightarrow>
            Term_setDesignator cr opNot applyOp st d = Inl (LocalProcCannotBeReferenced (d_code d)))
       \<and> (\<not> procedureIsStd proc \<and> \<not> isProcedureScope (d_scope d) \<longrightarrow>
            Term_setDesignator cr opNot applyOp st d
              = Term_handleExpression cr opNot applyOp st
                  (makeExpression (d_code d) (d_type d) (Some d) None))
       \<and> (\<not> procedureIsStd proc \<and> \<not> isProcedureScope (d_scope d) \<and> t_expression st = None \<longrightarrow>
            (\<exists>st'. Term_setDesignator cr opNot applyOp st d = Inr st'))
       \<and> (\<forall>st'. Term_setDesignator cr opNot applyOp st d = Inr st' \<longrightarrow>
            \<not> procedureIsStd proc \<and> \<not> isProcedureScope (d_scope d))"
  using assms
  by (auto simp: Term_setDesignator_def Term_handleExpression_def promoteExpressionType_def Let_def)

theorem procedure_reference_witness:
  "Term_setDesignator castRules0 id (\<lambda>(p::unit) l r. r) Term_init
       (procDesignator Std ''ORD'' None) = Inl (StdProcCannotBeReferenced (Procedure Std ''ORD''))
   \<and> Term_setDesignator castRules0 id (\<lambda>(p::unit) l r. r) Term_init
       (procDesignator Defined ''p'' (Some (Scope_Procedure 0)))
        = Inl (LocalProcCannotBeReferenced ''p'')
   \<and> (\<exists>st'. Term_setDesignator castRules0 id (\<lambda>(p::unit) l r. r) Term_init
       (procDesignator Defined ''p'' (Some (Scope_Module ''M''))) = Inr st')"
proof -
  have i: "d_info (procDesignator k n sc) = ProcedureId (Procedure k n)" for k n sc
    by (simp add: procDesignator_def)
  have s: "d_scope (procDesignator k n sc) = sc" "d_code (procDesignator k n sc) = n" for k n sc
    by (simp_all add: procDesignator_def)
  have e: "t_expression (Term_init :: unit term_state) = None"
    by (simp add: Term_init_def)
  from procedure_reference [OF i, of Std "''ORD''" castRules0 id "\<lambda>(p::unit) l r. r" Term_init None]
  have a: "Term_setDesignator castRules0 id (\<lambda>(p::unit) l r. r) Term_init
       (procDesignator Std ''ORD'' None) = Inl (StdProcCannotBeReferenced (Procedure Std ''ORD''))"
    by simp
  from procedure_reference [OF i, of Defined "''p''" castRules0 id "\<lambda>(p::unit) l r. r" Term_init
      "Some (Scope_Procedure 0)"]
  have b: "Term_setDesignator castRules0 id (\<lambda>(p::unit) l r. r) Term_init
       (procDesignator Defined ''p'' (Some (Scope_Procedure 0)))
        = Inl (LocalProcCannotBeReferenced ''p'')"
    by (simp add: s)
  from procedure_reference [OF i, of Defined "''p''" castRules0 id "\<lambda>(p::unit) l r. r" Term_init
      "Some (Scope_Module ''M'')"]
  have "\<not> procedureIsStd (Procedure Defined ''p'')
        \<and> \<not> isProcedureScope (d_scope (procDesignator Defined ''p'' (Some (Scope_Module ''M''))))
        \<and> t_expression (Term_init :: unit term_state) = None
      \<longrightarrow> (\<exists>st'. Term_setDesignator castRules0 id (\<lambda>(p::unit) l r. r) Term_init
             (procDesignator Defined ''p'' (Some (Scope_Module ''M''))) = Inr st')"
    by blast
  then have c: "\<exists>st'. Term_setDesignator castRules0 id (\<lambda>(p::unit) l r. r) Term_init
       (procDesignator Defined ''p'' (Some (Scope_Module ''M''))) = Inr st'"
    using e by (simp add: s)
  from a b c show ?thesis by blast
qed

end
